theory Spec2Isabelle
  imports Main "HOL-Library.AList"
begin

section \<open>Python values\<close>

text \<open>
  The SDK handles values of Python's dynamic type: whatever \<^verbatim>\<open>resp.json()\<close> returns
  (None, booleans, integers, floats, strings, lists, dictionaries) and the response
  objects built from them. A dictionary is an association list in insertion order; a
  genuine dictionary has distinct keys (\<open>dict_ok\<close> below). A finite float is its
  mantissa and binary exponent, \<open>PFloat m e\<close> standing for \<open>m * 2 ^ e\<close>; the three others
  are \<open>PNonFinite\<close>. Of a float the code reads its truth value and, in \<^verbatim>\<open>report\<close>,
  how it compares with 1 and 5. An instance of \<^verbatim>\<open>_APIObject\<close> or of one of its
  subclasses is its class together with its instance dictionary (\<^verbatim>\<open>__dict__\<close>).
\<close>

datatype resp_class =
    APIObject
  | SearchResponse
  | TrustResponse
  | RegisterResponse
  | UpdateResponse
  | ReportResponse
  | DomainsResponse
  | ScanResponse
  | DiscoverResponse

datatype nonfinite = NaN | Infinity | NegInfinity

datatype pyval =
    PNone
  | PBool bool
  | PInt int
  | PFloat int int
  | PNonFinite nonfinite
  | PStr string
  | PList "pyval list"
  | PDict "(string \<times> pyval) list"
  | PObj resp_class "(string \<times> pyval) list"

text \<open>Truth value of a Python object, as \<^verbatim>\<open>if x\<close>, \<^verbatim>\<open>not x\<close> and \<^verbatim>\<open>x or y\<close> read it.
  An \<^verbatim>\<open>_APIObject\<close> defines neither \<^verbatim>\<open>__bool__\<close> nor \<^verbatim>\<open>__len__\<close>, so it is true.\<close>

fun truthy :: "pyval \<Rightarrow> bool" where
  "truthy PNone = False"
| "truthy (PBool b) = b"
| "truthy (PInt i) = (i \<noteq> 0)"
| "truthy (PFloat m e) = (m \<noteq> 0)"
| "truthy (PNonFinite x) = True"
| "truthy (PStr s) = (s \<noteq> [])"
| "truthy (PList xs) = (xs \<noteq> [])"
| "truthy (PDict kvs) = (kvs \<noteq> [])"
| "truthy (PObj c at) = True"

definition py_or :: "pyval \<Rightarrow> pyval \<Rightarrow> pyval" where
  "py_or a b = (if truthy a then a else b)"

text \<open>\<^verbatim>\<open>d.get(key)\<close> and \<^verbatim>\<open>d.get(key, default)\<close> on a dictionary.\<close>

definition dict_get :: "(string \<times> pyval) list \<Rightarrow> string \<Rightarrow> pyval \<Rightarrow> pyval" where
  "dict_get kvs k dflt = (case map_of kvs k of None \<Rightarrow> dflt | Some v \<Rightarrow> v)"

text \<open>\<^verbatim>\<open>str(x)\<close>: a string is returned as it is; how any other value prints is Python's
  business, taken as the parameter \<open>render\<close>.\<close>

definition py_str :: "(pyval \<Rightarrow> string) \<Rightarrow> pyval \<Rightarrow> string" where
  "py_str render v = (case v of PStr s \<Rightarrow> s | _ \<Rightarrow> render v)"

text \<open>An optional string (\<^verbatim>\<open>Optional[str]\<close>) as a Python value.\<close>

definition of_opt_str :: "string option \<Rightarrow> pyval" where
  "of_opt_str s = (case s of None \<Rightarrow> PNone | Some t \<Rightarrow> PStr t)"

text \<open>A genuine Python value: every dictionary in it, at any depth, has distinct keys.\<close>

fun dict_ok :: "pyval \<Rightarrow> bool" where
  "dict_ok (PList xs) = list_all dict_ok xs"
| "dict_ok (PDict kvs) = (distinct (map fst kvs) \<and> list_all (\<lambda>kv. dict_ok (snd kv)) kvs)"
| "dict_ok (PObj c at) = (distinct (map fst at) \<and> list_all (\<lambda>kv. dict_ok (snd kv)) at)"
| "dict_ok v = True"

section \<open>Exceptions (exceptions.py, and the adapter's \<^verbatim>\<open>ClawPrintAPIError\<close>)\<close>

datatype exc_class =
    Exception
  | ClawPrintError
  | AuthenticationError
  | ValidationError
  | ClawPrintAPIError
  | TypeError
  | AttributeError
  | ValueError
  | OSError
  | RequestException

text \<open>The base classes of each class, as the \<^verbatim>\<open>class\<close> statements declare them, most
  specific first (the method resolution order without \<^verbatim>\<open>BaseException\<close> and
  \<^verbatim>\<open>object\<close>).\<close>

fun mro :: "exc_class \<Rightarrow> exc_class list" where
  "mro Exception = [Exception]"
| "mro ClawPrintError = [ClawPrintError, Exception]"
| "mro AuthenticationError = [AuthenticationError, ClawPrintError, Exception]"
| "mro ValidationError = [ValidationError, ClawPrintError, Exception]"
| "mro ClawPrintAPIError = [ClawPrintAPIError, Exception]"
| "mro TypeError = [TypeError, Exception]"
| "mro AttributeError = [AttributeError, Exception]"
| "mro ValueError = [ValueError, Exception]"
| "mro OSError = [OSError, Exception]"
| "mro RequestException = [RequestException, OSError, Exception]"

definition issubclass :: "exc_class \<Rightarrow> exc_class \<Rightarrow> bool" where
  "issubclass c d = (d \<in> set (mro c))"

text \<open>
  An exception raised by \<^verbatim>\<open>requests\<close> while sending: every one of them is a
  \<^verbatim>\<open>requests.RequestException\<close> (an \<^verbatim>\<open>OSError\<close>); the code asks whether it is a
  \<^verbatim>\<open>ConnectionError\<close>, whether it is a \<^verbatim>\<open>Timeout\<close>, and prints it.
\<close>

record requests_exc =
  is_connection_error :: bool
  is_timeout :: bool
  exc_text :: string

text \<open>
  An exception object. \<open>SDKError\<close> is a \<^verbatim>\<open>ClawPrintError\<close> or one of its subclasses with
  the four attributes its constructor stores; \<open>AdapterError\<close> is the adapter's
  \<^verbatim>\<open>ClawPrintAPIError(status_code, detail)\<close>; \<open>SendError\<close> is an exception of
  \<^verbatim>\<open>requests\<close>; \<open>Builtin\<close> is an exception of the Python runtime.
\<close>

datatype exc =
    SDKError (sdk_class: exc_class) (message: string) (status: "int option")
      (code: pyval) (body: pyval)
  | AdapterError (status_code_of: int) (detail: pyval)
  | SendError requests_exc
  | Builtin exc_class

fun class_of :: "exc \<Rightarrow> exc_class" where
  "class_of (SDKError c m s cd b) = c"
| "class_of (AdapterError s d) = ClawPrintAPIError"
| "class_of (SendError x) = RequestException"
| "class_of (Builtin c) = c"

text \<open>\<^verbatim>\<open>except C\<close> catches \<open>e\<close>, \<^verbatim>\<open>isinstance(e, C)\<close>.\<close>

definition isinstance :: "exc \<Rightarrow> exc_class \<Rightarrow> bool" where
  "isinstance e c = issubclass (class_of e) c"

definition AuthenticationError_init :: "string \<Rightarrow> exc" where
  "AuthenticationError_init method =
     SDKError AuthenticationError
       (''API key required for '' @ method @
        ''(). Pass api_key to ClawPrint() or set the CLAWPRINT_API_KEY env var.'')
       None (PStr ''auth_required'') PNone"

definition ValidationError_init :: "string \<Rightarrow> exc" where
  "ValidationError_init msg = SDKError ValidationError msg None (PStr ''validation_error'') PNone"

section \<open>The SDK's transport (http.py)\<close>

text \<open>
  What the code reads of a \<^verbatim>\<open>requests.Response\<close>: the status code, the result of
  \<^verbatim>\<open>resp.json()\<close> (\<open>None\<close> when it raises \<^verbatim>\<open>ValueError\<close>, as on an empty or malformed
  body) and the text. \<^verbatim>\<open>resp.ok\<close> is the library's property: true unless the status is
  a client or server error, \<open>400 \<le> status < 600\<close>.
\<close>

record response =
  status_code :: int
  json :: "pyval option"
  resp_text :: string

definition ok :: "response \<Rightarrow> bool" where
  "ok r = (\<not> (400 \<le> status_code r \<and> status_code r < 600))"

definition is_2xx :: "response \<Rightarrow> bool" where
  "is_2xx r = (200 \<le> status_code r \<and> status_code r < 300)"

text \<open>\<^verbatim>\<open>HTTPClient._handle_response\<close>. The local \<^verbatim>\<open>body\<close> starts as None and keeps the
  parsed value when parsing succeeds.\<close>

definition parsed_body :: "response \<Rightarrow> pyval" where
  "parsed_body r = (case json r of None \<Rightarrow> PNone | Some v \<Rightarrow> v)"

definition HTTPClient_handle_response :: "(pyval \<Rightarrow> string) \<Rightarrow> response \<Rightarrow> exc + pyval" where
  "HTTPClient_handle_response render r =
     (let body = parsed_body r in
      if ok r then (if body = PNone then Inr (PDict []) else Inr body)
      else
        (case body of
           PDict kvs \<Rightarrow>
             if kvs \<noteq> [] then
               Inl (SDKError ClawPrintError
                 (py_str render (dict_get kvs ''error''
                    (dict_get kvs ''message'' (PStr ''API request failed''))))
                 (Some (status_code r)) (dict_get kvs ''code'' PNone) body)
             else Inl (SDKError ClawPrintError (py_str render (PStr ''API request failed''))
                    (Some (status_code r)) PNone body)
         | _ \<Rightarrow> Inl (SDKError ClawPrintError (py_str render (PStr ''API request failed''))
                    (Some (status_code r)) PNone body)))"


text \<open>
  \<^verbatim>\<open>HTTPClient\<close>: the configuration fixed at construction, and the headers its
  \<^verbatim>\<open>requests.Session\<close> sends with every request.
\<close>

record http_client =
  hc_api_key :: "string option"
  base_url :: string
  timeout :: pyval
  session_headers :: "(string \<times> string) list"

text \<open>\<^verbatim>\<open>s.rstrip("/")\<close>.\<close>

definition rstrip_slash :: "string \<Rightarrow> string" where
  "rstrip_slash s = rev (dropWhile (\<lambda>c. c = CHR ''/'') (rev s))"

definition HTTPClient_init :: "string option \<Rightarrow> string \<Rightarrow> pyval \<Rightarrow> http_client" where
  "HTTPClient_init key url tmo =
     \<lparr>hc_api_key = key, base_url = rstrip_slash url, timeout = tmo,
      session_headers =
        [(''Accept'', ''application/json''), (''User-Agent'', ''clawprint-python/0.1.0'')]\<rparr>"

text \<open>Truth value of an \<^verbatim>\<open>Optional[str]\<close>: None and the empty string are false.\<close>

definition str_truthy :: "string option \<Rightarrow> bool" where
  "str_truthy k = (case k of None \<Rightarrow> False | Some s \<Rightarrow> s \<noteq> [])"

definition HTTPClient_url :: "http_client \<Rightarrow> string \<Rightarrow> string" where
  "HTTPClient_url c path = base_url c @ path"

definition HTTPClient_headers :: "http_client \<Rightarrow> bool \<Rightarrow> (string \<times> string) list" where
  "HTTPClient_headers c authenticated =
     (if authenticated \<and> str_truthy (hc_api_key c)
      then [(''Authorization'', ''Bearer '' @ the (hc_api_key c))]
      else [])"

text \<open>
  \<^verbatim>\<open>encode_path_segment\<close> is \<^verbatim>\<open>urllib.parse.quote(segment, safe="")\<close>: a character of
  the unreserved set (letters, digits, \<^verbatim>\<open>_.-~\<close>) stays, and every other one becomes
  \<^verbatim>\<open>%XX\<close> for each byte of its UTF-8 encoding, which has one byte for a code point
  below 128 and two for one below 256.
\<close>

definition unreserved :: "char \<Rightarrow> bool" where
  "unreserved c =
     (c \<in> set ''ABCDEFGHIJKLMNOPQRSTUVWXYZabcdefghijklmnopqrstuvwxyz0123456789_.-~'')"

definition hex_digit :: "nat \<Rightarrow> char" where
  "hex_digit n = ''0123456789ABCDEF'' ! (n mod 16)"

definition percent :: "nat \<Rightarrow> string" where
  "percent byte = [CHR ''%'', hex_digit (byte div 16), hex_digit (byte mod 16)]"

definition utf8 :: "nat \<Rightarrow> nat list" where
  "utf8 n = (if n < 128 then [n] else [192 + n div 64, 128 + n mod 64])"

definition quote_char :: "char \<Rightarrow> string" where
  "quote_char c = (if unreserved c then [c] else concat (map percent (utf8 (of_char c))))"

definition encode_path_segment :: "string \<Rightarrow> string" where
  "encode_path_segment segment = concat (map quote_char segment)"

text \<open>
  The arguments \<^verbatim>\<open>HTTPClient.request\<close> hands to \<^verbatim>\<open>self._session.request\<close>, and what
  that call does: it returns a response or raises one of the library's exceptions.
\<close>

record http_request =
  req_method :: string
  req_url :: string
  req_params :: "(string \<times> pyval) list option"
  req_json :: "(string \<times> pyval) list option"
  req_headers :: "(string \<times> string) list"
  req_timeout :: pyval

datatype send_result = Got response | Raised requests_exc

type_synonym session = "http_request \<Rightarrow> send_result"

text \<open>The result of a call and the requests it issued, in order.\<close>

type_synonym 'a outcome = "(exc + 'a) \<times> http_request list"

text \<open>\<^verbatim>\<open>{k: v for k, v in params.items() if v is not None}\<close>\<close>

definition strip_none :: "(string \<times> pyval) list \<Rightarrow> (string \<times> pyval) list" where
  "strip_none ps = filter (\<lambda>kv. snd kv \<noteq> PNone) ps"

text \<open>\<^verbatim>\<open>if params: params = ...\<close> followed by \<^verbatim>\<open>params or None\<close>.\<close>

definition outgoing_params ::
  "(string \<times> pyval) list option \<Rightarrow> (string \<times> pyval) list option" where
  "outgoing_params params =
     (let params1 = (case params of
                       None \<Rightarrow> None
                     | Some ps \<Rightarrow> if ps \<noteq> [] then Some (strip_none ps) else Some ps)
      in case params1 of
           None \<Rightarrow> None
         | Some ps \<Rightarrow> if ps \<noteq> [] then Some ps else None)"

definition transport_error :: "(pyval \<Rightarrow> string) \<Rightarrow> http_client \<Rightarrow> requests_exc \<Rightarrow> exc" where
  "transport_error render c x =
     (if is_connection_error x then
        SDKError ClawPrintError (''Connection error: '' @ exc_text x) None
          (PStr ''connection_error'') PNone
      else if is_timeout x then
        SDKError ClawPrintError
          (''Request timed out after '' @ py_str render (timeout c) @ ''s'') None
          (PStr ''timeout'') PNone
      else
        SDKError ClawPrintError (''Request failed: '' @ exc_text x) None
          (PStr ''request_error'') PNone)"

definition build_request ::
  "http_client \<Rightarrow> string \<Rightarrow> string \<Rightarrow> (string \<times> pyval) list option \<Rightarrow>
   (string \<times> pyval) list option \<Rightarrow> bool \<Rightarrow> http_request" where
  "build_request c method path params json_body authenticated =
     \<lparr>req_method = method, req_url = HTTPClient_url c path,
      req_params = outgoing_params params, req_json = json_body,
      req_headers = HTTPClient_headers c authenticated, req_timeout = timeout c\<rparr>"

definition HTTPClient_request ::
  "(pyval \<Rightarrow> string) \<Rightarrow> session \<Rightarrow> http_client \<Rightarrow> string \<Rightarrow> string \<Rightarrow>
   (string \<times> pyval) list option \<Rightarrow> (string \<times> pyval) list option \<Rightarrow> bool \<Rightarrow> pyval outcome" where
  "HTTPClient_request render net c method path params json_body authenticated =
     (let req = build_request c method path params json_body authenticated;
          result = (case net req of
                      Raised x \<Rightarrow> Inl (transport_error render c x)
                    | Got resp \<Rightarrow> HTTPClient_handle_response render resp)
      in (result, [req]))"

definition HTTPClient_get ::
  "(pyval \<Rightarrow> string) \<Rightarrow> session \<Rightarrow> http_client \<Rightarrow> string \<Rightarrow>
   (string \<times> pyval) list option \<Rightarrow> bool \<Rightarrow> pyval outcome" where
  "HTTPClient_get render net c path params authenticated =
     HTTPClient_request render net c ''GET'' path params None authenticated"

definition HTTPClient_post ::
  "(pyval \<Rightarrow> string) \<Rightarrow> session \<Rightarrow> http_client \<Rightarrow> string \<Rightarrow>
   (string \<times> pyval) list option \<Rightarrow> bool \<Rightarrow> pyval outcome" where
  "HTTPClient_post render net c path json_body authenticated =
     HTTPClient_request render net c ''POST'' path None json_body authenticated"

definition HTTPClient_patch ::
  "(pyval \<Rightarrow> string) \<Rightarrow> session \<Rightarrow> http_client \<Rightarrow> string \<Rightarrow>
   (string \<times> pyval) list option \<Rightarrow> bool \<Rightarrow> pyval outcome" where
  "HTTPClient_patch render net c path json_body authenticated =
     HTTPClient_request render net c ''PATCH'' path None json_body authenticated"

text \<open>The headers on the wire: the session's, overridden by those of the request.\<close>

definition wire_headers :: "http_client \<Rightarrow> http_request \<Rightarrow> (string \<times> string) list" where
  "wire_headers c req = AList.merge (session_headers c) (req_headers req)"


section \<open>Response objects (types.py)\<close>

text \<open>
  \<^verbatim>\<open>object.__setattr__(self, name, value)\<close> on an instance of a plain class stores into
  the instance dictionary, except for the three names every such instance reserves:
  \<^verbatim>\<open>__class__\<close> accepts only a class and \<^verbatim>\<open>__dict__\<close> only a dictionary (TypeError
  otherwise), and \<^verbatim>\<open>__weakref__\<close> is read-only (AttributeError). No value here is a class.
\<close>

definition reserved :: "string \<Rightarrow> bool" where
  "reserved name = (name = ''__class__'' \<or> name = ''__dict__'' \<or> name = ''__weakref__'')"

definition object_setattr ::
  "(string \<times> pyval) list \<Rightarrow> string \<Rightarrow> pyval \<Rightarrow> exc + (string \<times> pyval) list" where
  "object_setattr at name v =
     (if name = ''__class__'' then Inl (Builtin TypeError)
      else if name = ''__dict__'' then
        (case v of PDict kvs \<Rightarrow> Inr kvs | _ \<Rightarrow> Inl (Builtin TypeError))
      else if name = ''__weakref__'' then Inl (Builtin AttributeError)
      else Inr (AList.update name v at))"

text \<open>
  \<^verbatim>\<open>_wrap\<close>, with \<^verbatim>\<open>_APIObject(value)\<close> on a dictionary unfolded into it: \<open>init_fields\<close>
  is the loop of \<^verbatim>\<open>_APIObject.__init__\<close> over \<^verbatim>\<open>data.items()\<close>, threading the instance
  dictionary, and \<open>wrap_list\<close> is the list comprehension. An exception raised on the
  way ends the whole construction.
\<close>

fun wrap :: "pyval \<Rightarrow> exc + pyval"
  and wrap_list :: "pyval list \<Rightarrow> exc + pyval list"
  and init_fields ::
    "(string \<times> pyval) list \<Rightarrow> (string \<times> pyval) list \<Rightarrow> exc + (string \<times> pyval) list"
where
  "wrap (PDict kvs) =
     (case init_fields kvs [(''_data'', PDict kvs)] of
        Inl e \<Rightarrow> Inl e
      | Inr at \<Rightarrow> Inr (PObj APIObject at))"
| "wrap (PList xs) =
     (case wrap_list xs of Inl e \<Rightarrow> Inl e | Inr ys \<Rightarrow> Inr (PList ys))"
| "wrap PNone = Inr PNone"
| "wrap (PBool b) = Inr (PBool b)"
| "wrap (PInt i) = Inr (PInt i)"
| "wrap (PFloat m e) = Inr (PFloat m e)"
| "wrap (PNonFinite x) = Inr (PNonFinite x)"
| "wrap (PStr s) = Inr (PStr s)"
| "wrap (PObj c at) = Inr (PObj c at)"
| "wrap_list [] = Inr []"
| "wrap_list (x # xs) =
     (case wrap x of
        Inl e \<Rightarrow> Inl e
      | Inr y \<Rightarrow> (case wrap_list xs of Inl e \<Rightarrow> Inl e | Inr ys \<Rightarrow> Inr (y # ys)))"
| "init_fields [] at = Inr at"
| "init_fields ((key, v) # kvs) at =
     (case wrap v of
        Inl e \<Rightarrow> Inl e
      | Inr w \<Rightarrow>
          (case object_setattr at key w of
             Inl e \<Rightarrow> Inl e
           | Inr at' \<Rightarrow> init_fields kvs at'))"

text \<open>
  \<^verbatim>\<open>cls(data)\<close> for \<^verbatim>\<open>_APIObject\<close> and its subclasses: \<^verbatim>\<open>_data\<close> is stored first, then
  the fields. \<^verbatim>\<open>data.items()\<close> raises on anything but a dictionary: AttributeError
  where there is no such attribute, TypeError where an object holds a field of that
  name, which is not callable.
\<close>

definition APIObject_init :: "resp_class \<Rightarrow> pyval \<Rightarrow> exc + pyval" where
  "APIObject_init cls data =
     (case object_setattr [] ''_data'' data of
        Inl e \<Rightarrow> Inl e
      | Inr at0 \<Rightarrow>
          (case data of
             PDict kvs \<Rightarrow>
               (case init_fields kvs at0 of
                  Inl e \<Rightarrow> Inl e
                | Inr at \<Rightarrow> Inr (PObj cls at))
           | PObj c at \<Rightarrow>
               (if map_of at ''items'' \<noteq> None then Inl (Builtin TypeError)
                else Inl (Builtin AttributeError))
           | _ \<Rightarrow> Inl (Builtin AttributeError)))"

text \<open>
  Reading an attribute that the instance dictionary holds: \<^verbatim>\<open>getattr(self, key)\<close>
  returns the stored value. \<open>None\<close> stands for every other outcome (a method or
  another attribute of the class, or AttributeError), which is not a value of the
  model. The three reserved names are answered by the class, never by the instance.
\<close>

fun instance_attr :: "pyval \<Rightarrow> string \<Rightarrow> pyval option" where
  "instance_attr (PObj c at) name = (if reserved name then None else map_of at name)"
| "instance_attr v name = None"

text \<open>\<^verbatim>\<open>obj[key]\<close>, that is \<^verbatim>\<open>__getitem__\<close>: \<^verbatim>\<open>getattr(self, key)\<close>.\<close>

definition APIObject_getitem :: "pyval \<Rightarrow> string \<Rightarrow> pyval option" where
  "APIObject_getitem obj key = instance_attr obj key"

text \<open>
  \<^verbatim>\<open>dict(x)\<close>: a copy of a dictionary; TypeError on a value that cannot be iterated;
  on a string, the empty dictionary or ValueError (its elements have length 1). What
  Python builds from a list or from an object is not modelled: the parameter \<open>conv\<close>.
\<close>

definition py_dict :: "(pyval \<Rightarrow> exc + pyval) \<Rightarrow> pyval \<Rightarrow> exc + pyval" where
  "py_dict conv v =
     (case v of
        PDict kvs \<Rightarrow> Inr (PDict kvs)
      | PNone \<Rightarrow> Inl (Builtin TypeError)
      | PBool b \<Rightarrow> Inl (Builtin TypeError)
      | PInt i \<Rightarrow> Inl (Builtin TypeError)
      | PFloat m e \<Rightarrow> Inl (Builtin TypeError)
      | PNonFinite x \<Rightarrow> Inl (Builtin TypeError)
      | PStr s \<Rightarrow> if s = [] then Inr (PDict []) else Inl (Builtin ValueError)
      | _ \<Rightarrow> conv v)"

text \<open>
  The call \<^verbatim>\<open>obj.to_dict()\<close>. The name is first looked up in the instance dictionary,
  which shadows the method of the class: a field called \<^verbatim>\<open>to_dict\<close> is found instead,
  and calling it raises TypeError, since no value of a response is callable. The
  method itself is \<^verbatim>\<open>dict(self._data)\<close>, where \<^verbatim>\<open>self._data\<close> is again read from the
  instance dictionary.
\<close>

definition APIObject_to_dict :: "(pyval \<Rightarrow> exc + pyval) \<Rightarrow> pyval \<Rightarrow> exc + pyval" where
  "APIObject_to_dict conv obj =
     (case instance_attr obj ''to_dict'' of
        Some f \<Rightarrow> Inl (Builtin TypeError)
      | None \<Rightarrow>
          (case instance_attr obj ''_data'' of
             None \<Rightarrow> Inl (Builtin AttributeError)
           | Some d \<Rightarrow> py_dict conv d))"


section \<open>The public client (client.py)\<close>

record clawprint =
  api_key :: "string option"
  http :: http_client

text \<open>\<^verbatim>\<open>a or b\<close> on optional strings.\<close>

definition str_or :: "string option \<Rightarrow> string option \<Rightarrow> string option" where
  "str_or a b = (if str_truthy a then a else b)"

text \<open>\<^verbatim>\<open>ClawPrint.__init__\<close>; \<open>environ\<close> is \<^verbatim>\<open>os.environ\<close>.\<close>

definition ClawPrint_init ::
  "(string \<rightharpoonup> string) \<Rightarrow> string option \<Rightarrow> string \<Rightarrow> pyval \<Rightarrow> clawprint" where
  "ClawPrint_init environ key url tmo =
     (let k = str_or key (environ ''CLAWPRINT_API_KEY'')
      in \<lparr>api_key = k, http = HTTPClient_init k url tmo\<rparr>)"

definition require_auth :: "clawprint \<Rightarrow> string \<Rightarrow> exc + unit" where
  "require_auth c method_name =
     (if \<not> str_truthy (api_key c) then Inl (AuthenticationError_init method_name)
      else Inr ())"

text \<open>
  \<^verbatim>\<open>str.strip()\<close> removes white space at both ends. A string of the model is a Python
  string of code points below 256; the white space among them is tab to carriage
  return, the four separators, space, next line (133) and no-break space (160).
\<close>

definition py_isspace :: "char \<Rightarrow> bool" where
  "py_isspace c =
     (let n = (of_char c :: nat)
      in (9 \<le> n \<and> n \<le> 13) \<or> (28 \<le> n \<and> n \<le> 32) \<or> n = 133 \<or> n = 160)"

definition strip :: "string \<Rightarrow> string" where
  "strip s = rev (dropWhile py_isspace (rev (dropWhile py_isspace s)))"

definition require :: "string \<Rightarrow> pyval \<Rightarrow> exc + unit" where
  "require name v =
     (if v = PNone \<or> (case v of PStr s \<Rightarrow> strip s = [] | _ \<Rightarrow> False)
      then Inl (ValidationError_init
                  (CHR 0x27 # name @ CHR 0x27 # '' is required and cannot be empty.''))
      else Inr ())"

text \<open>Wrapping the parsed result of a request in its response class.\<close>

definition respond :: "resp_class \<Rightarrow> pyval outcome \<Rightarrow> pyval outcome" where
  "respond cls out =
     (case fst out of
        Inl e \<Rightarrow> (Inl e, snd out)
      | Inr data \<Rightarrow> (APIObject_init cls data, snd out))"

text \<open>A statement that raises before any request is issued.\<close>

definition raising :: "exc \<Rightarrow> pyval outcome" where
  "raising e = (Inl e, [])"

record search_args =
  search_q :: pyval
  search_domain :: pyval
  search_protocol :: pyval
  search_max_cost :: pyval
  search_min_verification :: pyval
  search_sort :: pyval
  search_limit :: pyval
  search_offset :: pyval

definition search_params :: "search_args \<Rightarrow> (string \<times> pyval) list" where
  "search_params a =
     [(''q'', search_q a), (''domain'', search_domain a),
      (''protocol'', search_protocol a), (''max_cost'', search_max_cost a),
      (''min_verification'', search_min_verification a), (''sort'', search_sort a),
      (''limit'', search_limit a), (''offset'', search_offset a)]"

definition ClawPrint_search ::
  "(pyval \<Rightarrow> string) \<Rightarrow> session \<Rightarrow> clawprint \<Rightarrow> search_args \<Rightarrow> pyval outcome" where
  "ClawPrint_search render net c a =
     respond SearchResponse
       (HTTPClient_get render net (http c) ''/v1/agents/search'' (Some (search_params a)) False)"

definition ClawPrint_trust ::
  "(pyval \<Rightarrow> string) \<Rightarrow> session \<Rightarrow> clawprint \<Rightarrow> string option \<Rightarrow> pyval outcome" where
  "ClawPrint_trust render net c handle =
     (case require ''handle'' (of_opt_str handle) of
        Inl e \<Rightarrow> raising e
      | Inr u \<Rightarrow>
          respond TrustResponse
            (HTTPClient_get render net (http c)
               (''/v1/trust/'' @ encode_path_segment (the handle)) None False))"

text \<open>
  \<^verbatim>\<open>register\<close>: the three required fields, then \<^verbatim>\<open>services\<close> and \<^verbatim>\<open>protocols\<close> when
  given, then \<^verbatim>\<open>body.update(extra)\<close>.
\<close>

definition dict_update_all ::
  "(string \<times> pyval) list \<Rightarrow> (string \<times> pyval) list \<Rightarrow> (string \<times> pyval) list" where
  "dict_update_all b extra = fold (\<lambda>kv acc. AList.update (fst kv) (snd kv) acc) extra b"

definition set_if_given ::
  "string \<Rightarrow> pyval \<Rightarrow> (string \<times> pyval) list \<Rightarrow> (string \<times> pyval) list" where
  "set_if_given k v b = (if v \<noteq> PNone then AList.update k v b else b)"

definition ClawPrint_register ::
  "(pyval \<Rightarrow> string) \<Rightarrow> session \<Rightarrow> clawprint \<Rightarrow> string option \<Rightarrow> string option \<Rightarrow>
   string option \<Rightarrow> pyval \<Rightarrow> pyval \<Rightarrow> (string \<times> pyval) list \<Rightarrow> pyval outcome" where
  "ClawPrint_register render net c name handle description services protocols extra =
     (case require ''name'' (of_opt_str name) of
        Inl e \<Rightarrow> raising e
      | Inr u \<Rightarrow>
     (case require ''handle'' (of_opt_str handle) of
        Inl e \<Rightarrow> raising e
      | Inr u \<Rightarrow>
     (case require ''description'' (of_opt_str description) of
        Inl e \<Rightarrow> raising e
      | Inr u \<Rightarrow>
          (let b0 = [(''name'', of_opt_str name), (''handle'', of_opt_str handle),
                     (''description'', of_opt_str description)];
               b1 = set_if_given ''services'' services b0;
               b2 = set_if_given ''protocols'' protocols b1;
               b3 = dict_update_all b2 extra
           in respond RegisterResponse
                (HTTPClient_post render net (http c) ''/v1/agents'' (Some b3) False)))))"

definition ClawPrint_update ::
  "(pyval \<Rightarrow> string) \<Rightarrow> session \<Rightarrow> clawprint \<Rightarrow> string option \<Rightarrow>
   (string \<times> pyval) list \<Rightarrow> pyval outcome" where
  "ClawPrint_update render net c handle kwargs =
     (case require_auth c ''update'' of
        Inl e \<Rightarrow> raising e
      | Inr u \<Rightarrow>
     (case require ''handle'' (of_opt_str handle) of
        Inl e \<Rightarrow> raising e
      | Inr u \<Rightarrow>
          if kwargs = [] then
            raising (ValidationError_init ''At least one field is required for update.'')
          else
            respond UpdateResponse
              (HTTPClient_patch render net (http c)
                 (''/v1/agents/'' @ encode_path_segment (the handle)) (Some kwargs) True)))"

record report_args =
  provider_handle :: "string option"
  requester_handle :: "string option"
  protocol :: "string option"
  outcome :: "string option"
  rating :: pyval
  external_tx_id :: pyval
  response_time_ms :: pyval
  cost_actual :: pyval

text \<open>
  The four optional arguments of \<^verbatim>\<open>report\<close> are whatever object the caller passes,
  None when left out. The test \<^verbatim>\<open>1 <= rating <= 5\<close> compares the rating as a number:
  an integer; a boolean, which is the integer 0 or 1; a float, exactly, by its value
  \<open>m * 2 ^ e\<close>, where NaN compares false with everything and the infinities lie
  outside the range. Any other object cannot be ordered with an integer: TypeError.
\<close>

definition int_le_float :: "int \<Rightarrow> int \<Rightarrow> int \<Rightarrow> bool" where
  "int_le_float i m e = (if 0 \<le> e then i \<le> m * 2 ^ nat e else i * 2 ^ nat (- e) \<le> m)"

definition float_le_int :: "int \<Rightarrow> int \<Rightarrow> int \<Rightarrow> bool" where
  "float_le_int m e i = (if 0 \<le> e then m * 2 ^ nat e \<le> i else m \<le> i * 2 ^ nat (- e))"

definition between_1_and_5 :: "pyval \<Rightarrow> exc + bool" where
  "between_1_and_5 v =
     (case v of
        PInt i \<Rightarrow> Inr (1 \<le> i \<and> i \<le> 5)
      | PBool b \<Rightarrow> Inr (1 \<le> (if b then 1 else 0 :: int) \<and> (if b then 1 else 0 :: int) \<le> 5)
      | PFloat m e \<Rightarrow> Inr (int_le_float 1 m e \<and> float_le_int m e 5)
      | PNonFinite x \<Rightarrow> Inr False
      | _ \<Rightarrow> Inl (Builtin TypeError))"

text \<open>The body of \<^verbatim>\<open>report\<close> once the rating has been checked.\<close>

definition report_body :: "report_args \<Rightarrow> (string \<times> pyval) list" where
  "report_body a =
     (let b0 = [(''provider_handle'', of_opt_str (provider_handle a)),
                (''requester_handle'', of_opt_str (requester_handle a)),
                (''protocol'', of_opt_str (protocol a)),
                (''outcome'', of_opt_str (outcome a))];
          b1 = set_if_given ''rating'' (rating a) b0;
          b2 = set_if_given ''external_tx_id'' (external_tx_id a) b1;
          b3 = set_if_given ''response_time_ms'' (response_time_ms a) b2
      in set_if_given ''cost_actual'' (cost_actual a) b3)"

definition ClawPrint_report ::
  "(pyval \<Rightarrow> string) \<Rightarrow> session \<Rightarrow> clawprint \<Rightarrow> report_args \<Rightarrow> pyval outcome" where
  "ClawPrint_report render net c a =
     (case require_auth c ''report'' of
        Inl e \<Rightarrow> raising e
      | Inr u \<Rightarrow>
     (case require ''provider_handle'' (of_opt_str (provider_handle a)) of
        Inl e \<Rightarrow> raising e
      | Inr u \<Rightarrow>
     (case require ''requester_handle'' (of_opt_str (requester_handle a)) of
        Inl e \<Rightarrow> raising e
      | Inr u \<Rightarrow>
     (case require ''protocol'' (of_opt_str (protocol a)) of
        Inl e \<Rightarrow> raising e
      | Inr u \<Rightarrow>
     (case require ''outcome'' (of_opt_str (outcome a)) of
        Inl e \<Rightarrow> raising e
      | Inr u \<Rightarrow>
          (case (if rating a \<noteq> PNone then between_1_and_5 (rating a) else Inr True) of
             Inl e \<Rightarrow> raising e
           | Inr in_range \<Rightarrow>
               if \<not> in_range then
                 raising (ValidationError_init ''rating must be between 1 and 5.'')
               else
                 respond ReportResponse
                   (HTTPClient_post render net (http c) ''/v1/transactions/report''
                      (Some (report_body a)) True)))))))"

definition ClawPrint_domains ::
  "(pyval \<Rightarrow> string) \<Rightarrow> session \<Rightarrow> clawprint \<Rightarrow> pyval outcome" where
  "ClawPrint_domains render net c =
     respond DomainsResponse (HTTPClient_get render net (http c) ''/v1/domains'' None False)"

definition ClawPrint_scan ::
  "(pyval \<Rightarrow> string) \<Rightarrow> session \<Rightarrow> clawprint \<Rightarrow> string option \<Rightarrow> pyval outcome" where
  "ClawPrint_scan render net c content =
     (case require_auth c ''scan'' of
        Inl e \<Rightarrow> raising e
      | Inr u \<Rightarrow>
     (case require ''content'' (of_opt_str content) of
        Inl e \<Rightarrow> raising e
      | Inr u \<Rightarrow>
          respond ScanResponse
            (HTTPClient_post render net (http c) ''/v1/security/scan''
               (Some [(''content'', of_opt_str content)]) True)))"

definition ClawPrint_discover ::
  "(pyval \<Rightarrow> string) \<Rightarrow> session \<Rightarrow> clawprint \<Rightarrow> pyval outcome" where
  "ClawPrint_discover render net c =
     respond DiscoverResponse (HTTPClient_get render net (http c) ''/v1/discover'' None False)"


section \<open>The adapter's client (langchain\_community/tools/clawprint/\_client.py)\<close>

record clawprint_client =
  cc_api_key :: "string option"
  cc_base_url :: string
  cc_timeout :: pyval
  cc_session_headers :: "(string \<times> string) list"

definition ClawPrintClient_init ::
  "(string \<rightharpoonup> string) \<Rightarrow> string option \<Rightarrow> string \<Rightarrow> pyval \<Rightarrow> clawprint_client" where
  "ClawPrintClient_init environ key url tmo =
     \<lparr>cc_api_key = str_or key (environ ''CLAWPRINT_API_KEY''),
      cc_base_url = rstrip_slash url, cc_timeout = tmo,
      cc_session_headers =
        [(''Accept'', ''application/json''), (''User-Agent'', ''langchain-community/clawprint'')]\<rparr>"

definition ClawPrintClient_headers ::
  "clawprint_client \<Rightarrow> bool \<Rightarrow> exc + (string \<times> string) list" where
  "ClawPrintClient_headers c auth_required =
     (if auth_required then
        (if \<not> str_truthy (cc_api_key c) then
           Inl (AdapterError 401
                  (PStr ''This endpoint requires an API key. Pass api_key= or set CLAWPRINT_API_KEY.''))
         else Inr [(''Authorization'', ''Bearer '' @ the (cc_api_key c))])
      else Inr [])"

text \<open>
  \<^verbatim>\<open>ClawPrintClient._handle_response\<close>. On success the parsed body is returned and a
  failure of \<^verbatim>\<open>resp.json()\<close> is not caught; status 204 gives None. On failure the
  detail is the first true value among the body's \<^verbatim>\<open>detail\<close>, its \<^verbatim>\<open>message\<close> and
  \<^verbatim>\<open>json.dumps(body)\<close> (the parameter \<open>dumps\<close>); when the body does not parse, or has no
  \<^verbatim>\<open>get\<close>, it is the first 500 characters of the text.
\<close>

definition ClawPrintClient_handle_response ::
  "(pyval \<Rightarrow> string) \<Rightarrow> response \<Rightarrow> exc + pyval" where
  "ClawPrintClient_handle_response dumps r =
     (if ok r then
        (if status_code r = 204 then Inr PNone
         else (case json r of None \<Rightarrow> Inl (Builtin ValueError) | Some v \<Rightarrow> Inr v))
      else
        Inl (AdapterError (status_code r)
          (case json r of
             Some (PDict kvs) \<Rightarrow>
               py_or (py_or (dict_get kvs ''detail'' PNone) (dict_get kvs ''message'' PNone))
                 (PStr (dumps (PDict kvs)))
           | _ \<Rightarrow> PStr (take 500 (resp_text r)))))"

text \<open>One call of the session: an exception of the library is not caught.\<close>

definition cc_send ::
  "(pyval \<Rightarrow> string) \<Rightarrow> session \<Rightarrow> http_request \<Rightarrow> pyval outcome" where
  "cc_send dumps net req =
     (case net req of
        Raised x \<Rightarrow> (Inl (SendError x), [req])
      | Got resp \<Rightarrow> (ClawPrintClient_handle_response dumps resp, [req]))"

definition cc_call ::
  "(pyval \<Rightarrow> string) \<Rightarrow> session \<Rightarrow> clawprint_client \<Rightarrow> string \<Rightarrow> string \<Rightarrow>
   (string \<times> pyval) list option \<Rightarrow> (string \<times> pyval) list option \<Rightarrow> bool \<Rightarrow> pyval outcome" where
  "cc_call dumps net c method path params payload auth_required =
     (case ClawPrintClient_headers c auth_required of
        Inl e \<Rightarrow> (Inl e, [])
      | Inr hs \<Rightarrow>
          cc_send dumps net
            \<lparr>req_method = method, req_url = cc_base_url c @ path, req_params = params,
             req_json = payload, req_headers = hs, req_timeout = cc_timeout c\<rparr>)"

definition search_agents ::
  "(pyval \<Rightarrow> string) \<Rightarrow> session \<Rightarrow> clawprint_client \<Rightarrow> string \<Rightarrow> string option \<Rightarrow>
   pyval \<Rightarrow> pyval outcome" where
  "search_agents dumps net c query domain min_score =
     (let p0 = [(''q'', PStr query)];
          p1 = (if str_truthy domain then AList.update ''domain'' (of_opt_str domain) p0
                else p0);
          p2 = set_if_given ''min_score'' min_score p1
      in cc_call dumps net c ''GET'' ''/v1/agents/search'' (Some p2) None False)"

definition get_agent ::
  "(pyval \<Rightarrow> string) \<Rightarrow> session \<Rightarrow> clawprint_client \<Rightarrow> string \<Rightarrow> pyval outcome" where
  "get_agent dumps net c handle =
     cc_call dumps net c ''GET'' (''/v1/agents/'' @ handle) None None False"

definition get_trust ::
  "(pyval \<Rightarrow> string) \<Rightarrow> session \<Rightarrow> clawprint_client \<Rightarrow> string \<Rightarrow> pyval outcome" where
  "get_trust dumps net c handle =
     cc_call dumps net c ''GET'' (''/v1/trust/'' @ handle) None None False"

definition list_domains ::
  "(pyval \<Rightarrow> string) \<Rightarrow> session \<Rightarrow> clawprint_client \<Rightarrow> pyval outcome" where
  "list_domains dumps net c = cc_call dumps net c ''GET'' ''/v1/domains'' None None False"

definition create_exchange_request ::
  "(pyval \<Rightarrow> string) \<Rightarrow> session \<Rightarrow> clawprint_client \<Rightarrow> string list \<Rightarrow> string \<Rightarrow>
   pyval \<Rightarrow> pyval outcome" where
  "create_exchange_request dumps net c domains task requirements =
     (let p0 = [(''domains'', PList (map PStr domains)), (''task'', PStr task)];
          p1 = (if truthy requirements then AList.update ''requirements'' requirements p0
                else p0)
      in cc_call dumps net c ''POST'' ''/v1/exchange/requests'' None (Some p1) True)"

definition get_exchange_request ::
  "(pyval \<Rightarrow> string) \<Rightarrow> session \<Rightarrow> clawprint_client \<Rightarrow> string \<Rightarrow> pyval outcome" where
  "get_exchange_request dumps net c request_id =
     cc_call dumps net c ''GET'' (''/v1/exchange/requests/'' @ request_id) None None True"


section \<open>Notions used to state the properties\<close>

text \<open>
  A path into a value: a field name selects in a dictionary or, through
  \<^verbatim>\<open>__getitem__\<close>, in a response object; an index selects in a list. \<open>json_at\<close> follows
  a path in parsed JSON, \<open>obj_at\<close> in what \<^verbatim>\<open>_wrap\<close> returns.
\<close>

datatype step = Key string | Index nat

fun json_at :: "pyval \<Rightarrow> step list \<Rightarrow> pyval option" where
  "json_at v [] = Some v"
| "json_at (PDict kvs) (Key k # p) =
     (case map_of kvs k of None \<Rightarrow> None | Some u \<Rightarrow> json_at u p)"
| "json_at (PList xs) (Index i # p) = (if i < length xs then json_at (xs ! i) p else None)"
| "json_at v (st # p) = None"

fun obj_at :: "pyval \<Rightarrow> step list \<Rightarrow> pyval option" where
  "obj_at w [] = Some w"
| "obj_at (PObj c at) (Key k # p) =
     (case APIObject_getitem (PObj c at) k of None \<Rightarrow> None | Some u \<Rightarrow> obj_at u p)"
| "obj_at (PList ws) (Index i # p) = (if i < length ws then obj_at (ws ! i) p else None)"
| "obj_at w (st # p) = None"

text \<open>No dictionary in the value, at any depth, has a field with a reserved name.\<close>

fun plain_names :: "pyval \<Rightarrow> bool" where
  "plain_names (PList xs) = list_all plain_names xs"
| "plain_names (PDict kvs) =
     list_all (\<lambda>kv. \<not> reserved (fst kv) \<and> plain_names (snd kv)) kvs"
| "plain_names v = True"

fun is_scalar :: "pyval \<Rightarrow> bool" where
  "is_scalar (PList xs) = False"
| "is_scalar (PDict kvs) = False"
| "is_scalar (PObj c at) = False"
| "is_scalar v = True"

fun is_envelope :: "pyval \<Rightarrow> bool" where
  "is_envelope (PObj c at) = True"
| "is_envelope v = False"

text \<open>A field of the parsed body, when the body is a JSON object that has it.\<close>

definition body_field :: "response \<Rightarrow> string \<Rightarrow> pyval option" where
  "body_field r k = (case json r of Some (PDict kvs) \<Rightarrow> map_of kvs k | _ \<Rightarrow> None)"

text \<open>A field of the parsed body whose value is true in Python's sense.\<close>

definition true_field :: "response \<Rightarrow> string \<Rightarrow> pyval option" where
  "true_field r k =
     (case body_field r k of None \<Rightarrow> None | Some v \<Rightarrow> if truthy v then Some v else None)"


text \<open>Whatever the call raises, if it raises, is an instance of the class \<open>C\<close>.\<close>

definition raises_only :: "exc_class \<Rightarrow> exc + 'a \<Rightarrow> bool" where
  "raises_only C res = (case res of Inl e \<Rightarrow> isinstance e C | Inr v \<Rightarrow> True)"

text \<open>A number: what Python can order with an integer.\<close>

fun is_number :: "pyval \<Rightarrow> bool" where
  "is_number (PBool b) = True"
| "is_number (PInt i) = True"
| "is_number (PFloat m e) = True"
| "is_number (PNonFinite x) = True"
| "is_number v = False"


text \<open>A required string argument that passes \<^verbatim>\<open>_require\<close>: given, and not blank.\<close>

definition given_nonblank :: "string option \<Rightarrow> bool" where
  "given_nonblank s = (case s of None \<Rightarrow> False | Some t \<Rightarrow> strip t \<noteq> [])"

text \<open>The query parameters a request carries (none when \<^verbatim>\<open>params=None\<close>).\<close>

definition sent_params :: "http_request \<Rightarrow> (string \<times> pyval) list" where
  "sent_params req = (case req_params req of None \<Rightarrow> [] | Some ps \<Rightarrow> ps)"

text \<open>How a filter given as \<open>v\<close> shows in the parameters \<open>ps\<close>: absent when \<open>v\<close> is
  None, otherwise present once, with the value \<open>v\<close>.\<close>

definition shows_as :: "(string \<times> pyval) list \<Rightarrow> string \<Rightarrow> pyval \<Rightarrow> bool" where
  "shows_as ps name v =
     (if v = PNone then name \<notin> fst ` set ps
      else filter (\<lambda>kv. fst kv = name) ps = [(name, v)])"


section \<open>Concrete inputs\<close>

text \<open>The inputs at which the theorems below are instantiated.\<close>

definition demo_render :: "pyval \<Rightarrow> string" where
  "demo_render v = (case v of PNone \<Rightarrow> ''None'' | PInt i \<Rightarrow> (if i = 30 then ''30'' else ''?'') | _ \<Rightarrow> ''?'')"

definition demo_environ :: "string \<rightharpoonup> string" where
  "demo_environ = [''CLAWPRINT_API_KEY'' \<mapsto> ''cp_env_key'']"

definition demo_client :: clawprint where
  "demo_client = ClawPrint_init demo_environ (Some ''cp_explicit'') ''https://clawprint.io'' (PInt 30)"


definition demo_search :: search_args where
  "demo_search =
     \<lparr>search_q = PStr ''legal'', search_domain = PNone, search_protocol = PStr ''acp'',
      search_max_cost = PNone, search_min_verification = PNone, search_sort = PNone,
      search_limit = PInt 5, search_offset = PNone\<rparr>"

definition respond_with :: "int \<Rightarrow> pyval option \<Rightarrow> session" where
  "respond_with st b = (\<lambda>req. Got \<lparr>status_code = st, json = b, resp_text = []\<rparr>)"

definition demo_adapter :: clawprint_client where
  "demo_adapter =
     ClawPrintClient_init demo_environ (Some ''cp_explicit'') ''https://clawprint.io'' (PInt 30)"

definition not_found :: response where
  "not_found = \<lparr>status_code = 404, json = Some (PDict [(''detail'', PStr ''Not found'')]),
                 resp_text = []\<rparr>"

definition no_content :: response where
  "no_content = \<lparr>status_code = 204, json = None, resp_text = []\<rparr>"

definition refused :: requests_exc where
  "refused = \<lparr>is_connection_error = True, is_timeout = False, exc_text = ''refused''\<rparr>"

section \<open>Authentication is checked before anything is sent\<close>

lemma no_key_not_truthy:
  "environ ''CLAWPRINT_API_KEY'' = None \<Longrightarrow>
   \<not> str_truthy (api_key (ClawPrint_init environ None url tmo))"
  by (simp add: ClawPrint_init_def str_or_def str_truthy_def Let_def)

text \<open>
  Claim C1. A client constructed with no \<^verbatim>\<open>api_key\<close>, in an environment without
  \<^verbatim>\<open>CLAWPRINT_API_KEY\<close>, raises \<^verbatim>\<open>AuthenticationError\<close> on \<^verbatim>\<open>update\<close>, \<^verbatim>\<open>report\<close> and
  \<^verbatim>\<open>scan\<close>, whatever the arguments and whatever the network would answer: the code is
  \<^verbatim>\<open>auth_required\<close>, the message names the operation, and the list of requests issued
  is empty.
\<close>

theorem auth_required_before_any_request:
  assumes "environ ''CLAWPRINT_API_KEY'' = None"
    and "c = ClawPrint_init environ None url tmo"
  shows
    "ClawPrint_update render net c handle kwargs =
       (Inl (SDKError AuthenticationError
          ''API key required for update(). Pass api_key to ClawPrint() or set the CLAWPRINT_API_KEY env var.''
          None (PStr ''auth_required'') PNone), [])
     \<and> ClawPrint_report render net c a =
       (Inl (SDKError AuthenticationError
          ''API key required for report(). Pass api_key to ClawPrint() or set the CLAWPRINT_API_KEY env var.''
          None (PStr ''auth_required'') PNone), [])
     \<and> ClawPrint_scan render net c content =
       (Inl (SDKError AuthenticationError
          ''API key required for scan(). Pass api_key to ClawPrint() or set the CLAWPRINT_API_KEY env var.''
          None (PStr ''auth_required'') PNone), [])"
proof -
  from assms have nk: "\<not> str_truthy (api_key c)" by (simp add: no_key_not_truthy)
  then have ra: "\<And>m. require_auth c m = Inl (AuthenticationError_init m)"
    by (simp add: require_auth_def)
  show ?thesis
    by (simp add: ClawPrint_update_def ClawPrint_report_def ClawPrint_scan_def ra raising_def
        AuthenticationError_init_def)
qed

theorem auth_required_before_any_request_witness:
  "ClawPrint_scan (\<lambda>v. []) (\<lambda>req. Got \<lparr>status_code = 200, json = Some (PDict []), resp_text = []\<rparr>)
     (ClawPrint_init Map.empty None ''https://clawprint.io'' (PInt 30)) (Some ''hello'') =
     (Inl (SDKError AuthenticationError
        ''API key required for scan(). Pass api_key to ClawPrint() or set the CLAWPRINT_API_KEY env var.''
        None (PStr ''auth_required'') PNone), [])"
  using auth_required_before_any_request
    [of Map.empty "ClawPrint_init Map.empty None ''https://clawprint.io'' (PInt 30)"
        "''https://clawprint.io''" "PInt 30"]
  by simp


section \<open>The transport sends without a key\<close>

lemma headers_no_key:
  "\<not> str_truthy (hc_api_key c) \<Longrightarrow> HTTPClient_headers c authenticated = []"
  by (simp add: HTTPClient_headers_def)

lemma ok_2xx: "is_2xx r \<Longrightarrow> ok r"
  by (simp add: is_2xx_def ok_def)

lemma sdk_success_response:
  assumes "ok r"
  shows "HTTPClient_handle_response render r =
     Inr (case json r of None \<Rightarrow> PDict [] | Some v \<Rightarrow> if v = PNone then PDict [] else v)"
  using assms
  by (simp add: HTTPClient_handle_response_def parsed_body_def split: option.splits)

text \<open>
  Claim C10. \<^verbatim>\<open>HTTPClient.request\<close> called with \<^verbatim>\<open>authenticated=True\<close> on a client without
  a key (None or the empty string) raises nothing of its own: it issues exactly one
  request, the one it would issue with \<^verbatim>\<open>authenticated=False\<close>; the request carries no
  header, and no \<^verbatim>\<open>Authorization\<close> header is among those of the session either; the
  result is the handling of whatever the session answers, so a 2xx response makes the
  call return.
\<close>

theorem request_sent_without_key:
  assumes "\<not> str_truthy key" and "c = HTTPClient_init key url tmo"
    and "req = build_request c method path params json_body True"
  shows
    "HTTPClient_request render net c method path params json_body True =
       ((case net req of
           Raised x \<Rightarrow> Inl (transport_error render c x)
         | Got resp \<Rightarrow> HTTPClient_handle_response render resp), [req])
     \<and> req = build_request c method path params json_body False
     \<and> req_headers req = []
     \<and> map_of (wire_headers c req) ''Authorization'' = None
     \<and> (\<forall>resp. net req = Got resp \<and> is_2xx resp \<longrightarrow>
           (\<exists>v. HTTPClient_request render net c method path params json_body True = (Inr v, [req])))"
proof -
  from assms(1,2) have nk: "\<not> str_truthy (hc_api_key c)" by (simp add: HTTPClient_init_def)
  have h: "req_headers req = []"
    using assms(3) nk by (simp add: build_request_def headers_no_key)
  have e: "req = build_request c method path params json_body False"
    using assms(3) nk by (simp add: build_request_def headers_no_key)
  have r: "HTTPClient_request render net c method path params json_body True =
       ((case net req of
           Raised x \<Rightarrow> Inl (transport_error render c x)
         | Got resp \<Rightarrow> HTTPClient_handle_response render resp), [req])"
    using assms(3) by (simp add: HTTPClient_request_def Let_def)
  have w: "map_of (wire_headers c req) ''Authorization'' = None"
    using h assms(2) by (simp add: wire_headers_def HTTPClient_init_def)
  have s: "\<forall>resp. net req = Got resp \<and> is_2xx resp \<longrightarrow>
           (\<exists>v. HTTPClient_request render net c method path params json_body True = (Inr v, [req]))"
    using r by (auto simp: sdk_success_response ok_2xx)
  from r e h w s show ?thesis by blast
qed

theorem request_sent_without_key_witness:
  "HTTPClient_request demo_render (respond_with 200 (Some (PDict [(''safe'', PBool True)])))
     (HTTPClient_init None ''https://clawprint.io'' (PInt 30)) ''POST'' ''/v1/security/scan'' None
     (Some [(''content'', PStr ''hi'')]) True =
   (Inr (PDict [(''safe'', PBool True)]),
    [\<lparr>req_method = ''POST'', req_url = ''https://clawprint.io/v1/security/scan'',
      req_params = None, req_json = Some [(''content'', PStr ''hi'')], req_headers = [],
      req_timeout = PInt 30\<rparr>])"
  using request_sent_without_key
    [of None "HTTPClient_init None ''https://clawprint.io'' (PInt 30)" "''https://clawprint.io''"
        "PInt 30"
        "build_request (HTTPClient_init None ''https://clawprint.io'' (PInt 30)) ''POST''
           ''/v1/security/scan'' None (Some [(''content'', PStr ''hi'')]) True"
        "''POST''" "''/v1/security/scan''" None "Some [(''content'', PStr ''hi'')]"
        demo_render "respond_with 200 (Some (PDict [(''safe'', PBool True)]))"]
  by (simp add: str_truthy_def build_request_def HTTPClient_init_def HTTPClient_url_def
      rstrip_slash_def outgoing_params_def HTTPClient_headers_def HTTPClient_handle_response_def
      parsed_body_def ok_def respond_with_def Let_def)

section \<open>Query parameters\<close>

lemma outgoing_params_strip:
  "(case outgoing_params params of None \<Rightarrow> [] | Some ps \<Rightarrow> ps) =
   strip_none (case params of None \<Rightarrow> [] | Some ps \<Rightarrow> ps)"
  by (cases params) (auto simp: outgoing_params_def strip_none_def Let_def)

lemma shows_as_Cons_other:
  "k \<noteq> name \<Longrightarrow> shows_as (strip_none ((k, v) # ps)) name u = shows_as (strip_none ps) name u"
  by (simp add: shows_as_def strip_none_def)

lemma shows_as_Cons_same:
  "name \<notin> fst ` set ps \<Longrightarrow> shows_as (strip_none ((name, v) # ps)) name v"
  by (auto simp: shows_as_def strip_none_def filter_empty_conv)

lemma search_shows_q: "shows_as (strip_none (search_params a)) ''q'' (search_q a)"
  unfolding search_params_def by (rule shows_as_Cons_same) simp

lemma search_shows_domain:
  "shows_as (strip_none (search_params a)) ''domain'' (search_domain a)"
  unfolding search_params_def by (simp add: shows_as_Cons_other shows_as_Cons_same)

lemma search_shows_protocol:
  "shows_as (strip_none (search_params a)) ''protocol'' (search_protocol a)"
  unfolding search_params_def by (simp add: shows_as_Cons_other shows_as_Cons_same)

lemma search_shows_max_cost:
  "shows_as (strip_none (search_params a)) ''max_cost'' (search_max_cost a)"
  unfolding search_params_def by (simp add: shows_as_Cons_other shows_as_Cons_same)

lemma search_shows_min_verification:
  "shows_as (strip_none (search_params a)) ''min_verification'' (search_min_verification a)"
  unfolding search_params_def by (simp add: shows_as_Cons_other shows_as_Cons_same)

lemma search_shows_sort: "shows_as (strip_none (search_params a)) ''sort'' (search_sort a)"
  unfolding search_params_def by (simp add: shows_as_Cons_other shows_as_Cons_same)

lemma search_shows_limit: "shows_as (strip_none (search_params a)) ''limit'' (search_limit a)"
  unfolding search_params_def by (simp add: shows_as_Cons_other shows_as_Cons_same)

lemma search_shows_offset:
  "shows_as (strip_none (search_params a)) ''offset'' (search_offset a)"
  unfolding search_params_def by (simp add: shows_as_Cons_other shows_as_Cons_same)

lemma respond_log: "snd (respond cls out) = snd out"
  by (simp add: respond_def split: sum.splits)

lemma request_log:
  "snd (HTTPClient_request render net c method path params json_body authenticated) =
   [build_request c method path params json_body authenticated]"
  by (simp add: HTTPClient_request_def Let_def)

lemma sent_params_build:
  "sent_params (build_request c method path params json_body authenticated) =
   strip_none (case params of None \<Rightarrow> [] | Some ps \<Rightarrow> ps)"
  by (simp add: sent_params_def build_request_def outgoing_params_strip)

text \<open>In a dictionary, the name of a parameter given as None is not sent at all.\<close>

lemma none_key_dropped:
  assumes "distinct (map fst ps)" and "(k, PNone) \<in> set ps"
  shows "k \<notin> fst ` set (strip_none ps)"
proof
  assume "k \<in> fst ` set (strip_none ps)"
  then obtain v where v: "(k, v) \<in> set ps" "v \<noteq> PNone"
    by (auto simp: strip_none_def)
  from assms(1) v(1) have "map_of ps k = Some v" by (rule map_of_is_SomeI)
  moreover from assms have "map_of ps k = Some PNone" by (rule map_of_is_SomeI)
  ultimately show False using v(2) by simp
qed

lemma search_log:
  "snd (ClawPrint_search render net c a) =
   [build_request (http c) ''GET'' ''/v1/agents/search'' (Some (search_params a)) None False]"
  by (simp add: ClawPrint_search_def respond_log HTTPClient_get_def request_log)

text \<open>
  Claim C4. The one request \<^verbatim>\<open>HTTPClient.request\<close> issues carries exactly the given
  parameters whose value is not None, each with the value it was given; the name of a
  parameter given as None does not occur in it at all. For \<^verbatim>\<open>search\<close>, each of the
  eight filters is absent from the request when it is None and otherwise present once
  with its value.
\<close>

theorem none_valued_params_omitted:
  "(\<exists>req. snd (HTTPClient_request render net hc method path params json_body authenticated) = [req]
      \<and> set (sent_params req) =
          {kv \<in> set (case params of None \<Rightarrow> [] | Some ps \<Rightarrow> ps). snd kv \<noteq> PNone}
      \<and> (\<forall>ps k. params = Some ps \<and> distinct (map fst ps) \<and> (k, PNone) \<in> set ps \<longrightarrow>
             k \<notin> fst ` set (sent_params req)))
   \<and> (\<exists>req. snd (ClawPrint_search render net c a) = [req]
      \<and> shows_as (sent_params req) ''q'' (search_q a)
      \<and> shows_as (sent_params req) ''domain'' (search_domain a)
      \<and> shows_as (sent_params req) ''protocol'' (search_protocol a)
      \<and> shows_as (sent_params req) ''max_cost'' (search_max_cost a)
      \<and> shows_as (sent_params req) ''min_verification'' (search_min_verification a)
      \<and> shows_as (sent_params req) ''sort'' (search_sort a)
      \<and> shows_as (sent_params req) ''limit'' (search_limit a)
      \<and> shows_as (sent_params req) ''offset'' (search_offset a))"
proof
  have "\<forall>ps k. params = Some ps \<and> distinct (map fst ps) \<and> (k, PNone) \<in> set ps \<longrightarrow>
          k \<notin> fst ` set (strip_none (case params of None \<Rightarrow> [] | Some ps \<Rightarrow> ps))"
    by (auto simp: none_key_dropped)
  then show "\<exists>req. snd (HTTPClient_request render net hc method path params json_body authenticated) = [req]
      \<and> set (sent_params req) =
          {kv \<in> set (case params of None \<Rightarrow> [] | Some ps \<Rightarrow> ps). snd kv \<noteq> PNone}
      \<and> (\<forall>ps k. params = Some ps \<and> distinct (map fst ps) \<and> (k, PNone) \<in> set ps \<longrightarrow>
             k \<notin> fst ` set (sent_params req))"
    by (simp add: request_log sent_params_build) (simp add: strip_none_def)
next
  have "sent_params (build_request (http c) ''GET'' ''/v1/agents/search''
          (Some (search_params a)) None False) = strip_none (search_params a)"
    by (simp add: sent_params_build)
  then show "\<exists>req. snd (ClawPrint_search render net c a) = [req]
      \<and> shows_as (sent_params req) ''q'' (search_q a)
      \<and> shows_as (sent_params req) ''domain'' (search_domain a)
      \<and> shows_as (sent_params req) ''protocol'' (search_protocol a)
      \<and> shows_as (sent_params req) ''max_cost'' (search_max_cost a)
      \<and> shows_as (sent_params req) ''min_verification'' (search_min_verification a)
      \<and> shows_as (sent_params req) ''sort'' (search_sort a)
      \<and> shows_as (sent_params req) ''limit'' (search_limit a)
      \<and> shows_as (sent_params req) ''offset'' (search_offset a)"
    by (simp add: search_log search_shows_q search_shows_domain search_shows_protocol
        search_shows_max_cost search_shows_min_verification search_shows_sort
        search_shows_limit search_shows_offset)
qed


theorem none_valued_params_omitted_witness:
  "snd (ClawPrint_search demo_render (respond_with 200 None) demo_client demo_search) =
     [\<lparr>req_method = ''GET'', req_url = ''https://clawprint.io/v1/agents/search'',
       req_params = Some [(''q'', PStr ''legal''), (''protocol'', PStr ''acp''), (''limit'', PInt 5)],
       req_json = None, req_headers = [], req_timeout = PInt 30\<rparr>]"
  using none_valued_params_omitted [of demo_render "respond_with 200 None" "http demo_client"
      "''GET''" "''/v1/agents/search''" "Some (search_params demo_search)" None False
      demo_client demo_search]
  by (simp add: search_log build_request_def demo_client_def demo_search_def search_params_def
      ClawPrint_init_def HTTPClient_init_def HTTPClient_url_def HTTPClient_headers_def
      rstrip_slash_def outgoing_params_def strip_none_def Let_def)

section \<open>Error responses\<close>

lemma py_str_string: "py_str render (PStr s) = s"
  by (simp add: py_str_def)

lemma not_ok_iff: "(\<not> ok r) = (400 \<le> status_code r \<and> status_code r < 600)"
  by (simp add: ok_def)

lemma sdk_error_response:
  assumes "\<not> ok r"
  shows "HTTPClient_handle_response render r =
     Inl (SDKError ClawPrintError
       (case body_field r ''error'' of
          Some v \<Rightarrow> py_str render v
        | None \<Rightarrow> (case body_field r ''message'' of
                     Some v \<Rightarrow> py_str render v
                   | None \<Rightarrow> ''API request failed''))
       (Some (status_code r))
       (case body_field r ''code'' of Some v \<Rightarrow> v | None \<Rightarrow> PNone)
       (case json r of None \<Rightarrow> PNone | Some v \<Rightarrow> v))"
proof (cases "json r")
  case None
  with assms show ?thesis
    by (simp add: HTTPClient_handle_response_def parsed_body_def body_field_def py_str_def)
next
  case (Some v)
  show ?thesis
  proof (cases v)
    case (PDict kvs)
    show ?thesis
    proof (cases "kvs = []")
      case True
      with assms Some PDict show ?thesis
        by (simp add: HTTPClient_handle_response_def parsed_body_def body_field_def py_str_def)
    next
      case False
      with assms Some PDict show ?thesis
        by (simp add: HTTPClient_handle_response_def parsed_body_def body_field_def dict_get_def
            py_str_def split: option.splits)
    qed
  qed (use assms Some in \<open>simp_all add: HTTPClient_handle_response_def parsed_body_def
        body_field_def py_str_def\<close>)
qed

lemma adapter_error_response:
  assumes "\<not> ok r"
  shows "ClawPrintClient_handle_response dumps r =
     Inl (AdapterError (status_code r)
       (case json r of
          Some (PDict kvs) \<Rightarrow>
            (case true_field r ''detail'' of
               Some v \<Rightarrow> v
             | None \<Rightarrow>
                 (case true_field r ''message'' of
                    Some m \<Rightarrow> m
                  | None \<Rightarrow> PStr (dumps (PDict kvs))))
        | _ \<Rightarrow> PStr (take 500 (resp_text r))))"
proof (cases "json r")
  case None
  with assms show ?thesis by (simp add: ClawPrintClient_handle_response_def)
next
  case (Some v)
  with assms show ?thesis
    by (cases v)
      (simp_all add: ClawPrintClient_handle_response_def body_field_def true_field_def
        dict_get_def py_or_def split: option.splits)
qed

text \<open>
  Claim C2, as amended. For every response whose status is a client or server error
  (400 to 599), \<^verbatim>\<open>HTTPClient._handle_response\<close> raises a \<^verbatim>\<open>ClawPrintError\<close> whose status is
  the response's; whose message is \<^verbatim>\<open>str\<close> of the body's \<^verbatim>\<open>error\<close> field when the body is
  a JSON object that has one, else of its \<^verbatim>\<open>message\<close> field, else
  \<^verbatim>\<open>API request failed\<close>; whose code is the body's \<^verbatim>\<open>code\<close> field, None without one;
  and whose body is the parsed body, None when it does not parse. On the same
  response the adapter's \<^verbatim>\<open>ClawPrintClient._handle_response\<close> raises its own
  \<^verbatim>\<open>ClawPrintAPIError\<close> with that status and, as detail, the first of the body's
  \<^verbatim>\<open>detail\<close>, its \<^verbatim>\<open>message\<close> and its JSON dump that is true, or the first 500
  characters of the text when the body is no JSON object.
\<close>

theorem error_response_raises:
  assumes "400 \<le> status_code r" and "status_code r < 600"
  shows
    "HTTPClient_handle_response render r =
       Inl (SDKError ClawPrintError
         (case body_field r ''error'' of
            Some v \<Rightarrow> py_str render v
          | None \<Rightarrow> (case body_field r ''message'' of
                       Some v \<Rightarrow> py_str render v
                     | None \<Rightarrow> ''API request failed''))
         (Some (status_code r))
         (case body_field r ''code'' of Some v \<Rightarrow> v | None \<Rightarrow> PNone)
         (case json r of None \<Rightarrow> PNone | Some v \<Rightarrow> v))
     \<and> ClawPrintClient_handle_response dumps r =
       Inl (AdapterError (status_code r)
         (case json r of
            Some (PDict kvs) \<Rightarrow>
              (case true_field r ''detail'' of
                 Some v \<Rightarrow> v
               | None \<Rightarrow>
                   (case true_field r ''message'' of
                      Some m \<Rightarrow> m
                    | None \<Rightarrow> PStr (dumps (PDict kvs))))
          | _ \<Rightarrow> PStr (take 500 (resp_text r))))"
proof -
  from assms have "\<not> ok r" by (simp add: not_ok_iff)
  then show ?thesis
    using sdk_error_response[of r render] adapter_error_response[of r dumps] by simp
qed

theorem error_response_raises_witness:
  "HTTPClient_handle_response demo_render not_found =
     Inl (SDKError ClawPrintError ''API request failed'' (Some 404) PNone
            (PDict [(''detail'', PStr ''Not found'')]))
   \<and> ClawPrintClient_handle_response demo_render not_found =
     Inl (AdapterError 404 (PStr ''Not found''))"
  using error_response_raises [of not_found demo_render demo_render]
  by (simp add: not_found_def body_field_def true_field_def)

text \<open>
  Claim C2 as stated fails on the adapter's client, which the claim's sources name
  beside the SDK's: for a 404 response whose body has both an \<^verbatim>\<open>error\<close> and a
  \<^verbatim>\<open>message\<close> field, the error it raises carries the message field, not the error
  field, and neither a code nor the body.
\<close>

theorem adapter_error_ignores_error_field:
  "ClawPrintClient_handle_response demo_render
     \<lparr>status_code = 404,
      json = Some (PDict [(''error'', PStr ''bad''), (''message'', PStr ''m''), (''code'', PStr ''c'')]),
      resp_text = []\<rparr> = Inl (AdapterError 404 (PStr ''m''))
   \<and> PStr ''m'' \<noteq> PStr ''bad''"
  by (simp add: ClawPrintClient_handle_response_def ok_def dict_get_def py_or_def)


section \<open>Success responses\<close>

lemma adapter_success_response:
  assumes "ok r"
  shows "ClawPrintClient_handle_response dumps r =
     (if status_code r = 204 then Inr PNone
      else (case json r of None \<Rightarrow> Inl (Builtin ValueError) | Some v \<Rightarrow> Inr v))"
  using assms by (simp add: ClawPrintClient_handle_response_def)

text \<open>
  Claim C3, as amended. For every response with a 2xx status,
  \<^verbatim>\<open>HTTPClient._handle_response\<close> returns: the empty dictionary when the body does not
  parse or parses to JSON null, the parsed body otherwise. The adapter's
  \<^verbatim>\<open>ClawPrintClient._handle_response\<close> returns None on status 204, whatever the body,
  and on any other 2xx status the parsed body when the body parses.
\<close>

theorem success_response_returns:
  assumes "is_2xx r"
  shows
    "HTTPClient_handle_response render r =
       Inr (case json r of None \<Rightarrow> PDict [] | Some v \<Rightarrow> if v = PNone then PDict [] else v)
     \<and> (if status_code r = 204 then ClawPrintClient_handle_response dumps r = Inr PNone
         else (case json r of
                 None \<Rightarrow> True
               | Some v \<Rightarrow> ClawPrintClient_handle_response dumps r = Inr v))"
  using assms sdk_success_response[of r render] adapter_success_response[of r dumps]
  by (simp add: ok_2xx split: option.splits)

theorem success_response_returns_witness:
  "HTTPClient_handle_response demo_render no_content = Inr (PDict [])
   \<and> ClawPrintClient_handle_response demo_render no_content = Inr PNone"
  using success_response_returns [of no_content demo_render demo_render]
  by (simp add: no_content_def is_2xx_def)

text \<open>
  Claim C3 as stated fails in two places. On the 204 response with an empty body the
  adapter's client returns None, not the empty mapping; and the SDK's transport, given
  a 200 response whose body is the JSON value null, returns the empty dictionary, not
  the parsed body.
\<close>

theorem success_response_not_always_mapping:
  "ClawPrintClient_handle_response demo_render no_content = Inr PNone
   \<and> Inr PNone \<noteq> (Inr (PDict []) :: exc + pyval)
   \<and> HTTPClient_handle_response demo_render
       \<lparr>status_code = 200, json = Some PNone, resp_text = ''null''\<rparr> = Inr (PDict [])"
  by (simp add: ClawPrintClient_handle_response_def HTTPClient_handle_response_def no_content_def
      ok_def parsed_body_def)

text \<open>Where the adapter's client does not tolerate a body that fails to parse: on a
  2xx status other than 204 the parser's \<^verbatim>\<open>ValueError\<close> is raised to the caller.\<close>

lemma adapter_unparsable_success_raises:
  "is_2xx r \<Longrightarrow> status_code r \<noteq> 204 \<Longrightarrow> json r = None \<Longrightarrow>
   ClawPrintClient_handle_response dumps r = Inl (Builtin ValueError)"
  by (simp add: adapter_success_response ok_2xx)

text \<open>Where the SDK's transport does not raise on a status outside 2xx: \<^verbatim>\<open>resp.ok\<close> is
  true of a 304 response.\<close>

lemma not_modified_returns:
  "HTTPClient_handle_response render \<lparr>status_code = 304, json = None, resp_text = []\<rparr> =
     Inr (PDict [])"
  by (simp add: HTTPClient_handle_response_def ok_def parsed_body_def)

section \<open>The key given to the constructor and the environment\<close>

lemma str_or_given: "k \<noteq> [] \<Longrightarrow> str_or (Some k) e = Some k"
  by (simp add: str_or_def str_truthy_def)

text \<open>
  Claim C7, as amended. When the constructor is given a non-empty \<^verbatim>\<open>api_key\<close>, that
  key is the client's key whatever the environment holds: for the SDK's client and
  the transport it builds, and for the adapter's client. Given the empty string,
  both clients take what the environment holds.
\<close>

theorem nonempty_key_overrides_environment:
  assumes "k \<noteq> []"
  shows "api_key (ClawPrint_init environ (Some k) url tmo) = Some k
       \<and> hc_api_key (http (ClawPrint_init environ (Some k) url tmo)) = Some k
       \<and> cc_api_key (ClawPrintClient_init environ (Some k) url tmo) = Some k
       \<and> api_key (ClawPrint_init environ (Some []) url tmo) = environ ''CLAWPRINT_API_KEY''
       \<and> cc_api_key (ClawPrintClient_init environ (Some []) url tmo) =
           environ ''CLAWPRINT_API_KEY''"
  using assms
  by (simp add: ClawPrint_init_def ClawPrintClient_init_def HTTPClient_init_def str_or_given
      str_or_def str_truthy_def Let_def)

theorem nonempty_key_overrides_environment_witness:
  "api_key demo_client = Some ''cp_explicit''
   \<and> hc_api_key (http demo_client) = Some ''cp_explicit''
   \<and> cc_api_key demo_adapter = Some ''cp_explicit''"
  using nonempty_key_overrides_environment
    [of "''cp_explicit''" demo_environ "''https://clawprint.io''" "PInt 30"]
  by (simp add: demo_client_def demo_adapter_def)

text \<open>
  Claim C7 as stated fails for the empty string: given \<^verbatim>\<open>api_key=""\<close> with
  \<^verbatim>\<open>CLAWPRINT_API_KEY\<close> set, both constructors take the key of the environment,
  since \<^verbatim>\<open>api_key or os.environ.get(...)\<close> reads the empty string as false.
\<close>

theorem empty_key_falls_back_to_environment:
  "api_key (ClawPrint_init demo_environ (Some []) ''https://clawprint.io'' (PInt 30)) =
     Some ''cp_env_key''
   \<and> cc_api_key (ClawPrintClient_init demo_environ (Some []) ''https://clawprint.io'' (PInt 30)) =
     Some ''cp_env_key''"
  by (simp add: ClawPrint_init_def ClawPrintClient_init_def demo_environ_def str_or_def
      str_truthy_def Let_def)


section \<open>Properties of the response objects\<close>

lemma wrap_not_dict: "wrap v = Inr w \<Longrightarrow> w \<noteq> PDict d"
  by (cases v) (auto split: sum.splits)

lemma setattr_wrapped:
  assumes "wrap v = Inr w" and "object_setattr at k w = Inr at'"
  shows "\<not> reserved k \<and> at' = AList.update k w at"
  using assms wrap_not_dict[OF assms(1)]
  by (auto simp: object_setattr_def reserved_def split: if_splits pyval.splits)

lemma setattr_plain:
  "\<not> reserved k \<Longrightarrow> object_setattr at k w = Inr (AList.update k w at)"
  by (simp add: object_setattr_def reserved_def)

text \<open>The loop leaves every attribute alone that is not a field of the data.\<close>

lemma init_fields_other:
  "init_fields kvs at = Inr at' \<Longrightarrow> k \<notin> fst ` set kvs \<Longrightarrow> map_of at' k = map_of at k"
proof (induction kvs arbitrary: at)
  case Nil
  then show ?case by simp
next
  case (Cons kv kvs)
  obtain key v where kv: "kv = (key, v)" by (cases kv)
  from Cons.prems(1) kv obtain w at1 where
    w: "wrap v = Inr w" and s: "object_setattr at key w = Inr at1"
    and r: "init_fields kvs at1 = Inr at'"
    by (auto split: sum.splits)
  from setattr_wrapped[OF w s] have at1: "at1 = AList.update key w at" by simp
  from Cons.prems(2) kv have "k \<noteq> key" "k \<notin> fst ` set kvs" by auto
  with Cons.IH[OF r] at1 show ?case by (simp add: update_conv')
qed

text \<open>When the loop completes, every field of a dictionary is an attribute holding the
  wrapped value, and none of the field names is reserved.\<close>

lemma init_fields_field:
  "init_fields kvs at = Inr at' \<Longrightarrow> distinct (map fst kvs) \<Longrightarrow> (k, u) \<in> set kvs \<Longrightarrow>
   \<not> reserved k \<and> (\<exists>w. wrap u = Inr w \<and> map_of at' k = Some w)"
proof (induction kvs arbitrary: at)
  case Nil
  then show ?case by simp
next
  case (Cons kv kvs)
  obtain key v where kv: "kv = (key, v)" by (cases kv)
  from Cons.prems(1) kv obtain w at1 where
    w: "wrap v = Inr w" and s: "object_setattr at key w = Inr at1"
    and r: "init_fields kvs at1 = Inr at'"
    by (auto split: sum.splits)
  from setattr_wrapped[OF w s] have at1: "at1 = AList.update key w at"
    and nr: "\<not> reserved key" by simp_all
  show ?case
  proof (cases "(k, u) = (key, v)")
    case True
    from Cons.prems(2) kv have "key \<notin> fst ` set kvs" by auto
    from init_fields_other[OF r this] at1 have "map_of at' key = Some w"
      by (simp add: update_conv')
    with True w nr show ?thesis by auto
  next
    case False
    with Cons.prems(3) kv have "(k, u) \<in> set kvs" by auto
    moreover from Cons.prems(2) have "distinct (map fst kvs)" by simp
    ultimately show ?thesis using Cons.IH[OF r] by blast
  qed
qed

text \<open>Without reserved field names the construction completes.\<close>

lemma wrap_total: "plain_names v \<Longrightarrow> \<exists>w. wrap v = Inr w"
  and wrap_list_total: "list_all plain_names xs \<Longrightarrow> \<exists>ys. wrap_list xs = Inr ys"
  and init_fields_total:
    "list_all (\<lambda>kv. \<not> reserved (fst kv) \<and> plain_names (snd kv)) kvs \<Longrightarrow>
       \<exists>at'. init_fields kvs at = Inr at'"
proof (induction v and xs and kvs at rule: wrap_wrap_list_init_fields.induct)
  case (1 kvs)
  then show ?case by (auto split: sum.splits)
next
  case (2 xs)
  then show ?case by (auto split: sum.splits)
next
  case (11 x xs)
  then show ?case by (auto split: sum.splits)
next
  case (13 key v kvs at)
  then show ?case by (auto simp: setattr_plain split: sum.splits)
qed simp_all

lemma APIObject_init_dict:
  "APIObject_init cls (PDict kvs) =
     (case init_fields kvs [(''_data'', PDict kvs)] of
        Inl e \<Rightarrow> Inl e | Inr at \<Rightarrow> Inr (PObj cls at))"
  by (simp add: APIObject_init_def object_setattr_def)

text \<open>\<^verbatim>\<open>_wrap\<close> on a dictionary is \<^verbatim>\<open>_APIObject(value)\<close>.\<close>

lemma wrap_is_init: "wrap (PDict kvs) = APIObject_init APIObject (PDict kvs)"
  by (simp add: APIObject_init_dict)


lemma wrap_list_nth:
  "wrap_list xs = Inr ys \<Longrightarrow>
   length ys = length xs \<and> (\<forall>i < length xs. wrap (xs ! i) = Inr (ys ! i))"
proof (induction xs arbitrary: ys)
  case Nil
  then show ?case by simp
next
  case (Cons x xs)
  then obtain y ys' where y: "wrap x = Inr y" and r: "wrap_list xs = Inr ys'"
    and ys: "ys = y # ys'"
    by (auto split: sum.splits)
  from Cons.IH[OF r] y ys show ?case by (auto simp: nth_Cons split: nat.splits)
qed

lemma wrap_dict_envelope:
  "wrap (PDict kvs) = Inr w \<Longrightarrow>
   \<exists>at. w = PObj APIObject at \<and> init_fields kvs [(''_data'', PDict kvs)] = Inr at"
  by (auto split: sum.splits)

text \<open>
  What holds of the wrapping when it completes: whatever a path of field names and
  list indices reaches in the parsed JSON, the same path reaches in the response
  object, through \<^verbatim>\<open>__getitem__\<close> and list indexing, and what it reaches there is the
  wrapping of the JSON value.
\<close>

lemma wrap_paths:
  "wrap v = Inr w \<Longrightarrow> dict_ok v \<Longrightarrow> json_at v p = Some u \<Longrightarrow>
   \<exists>wu. wrap u = Inr wu \<and> obj_at w p = Some wu"
proof (induction p arbitrary: v w)
  case Nil
  then show ?case by simp
next
  case (Cons st p)
  show ?case
  proof (cases st)
    case (Key k)
    with Cons.prems(3) obtain kvs u1 where v: "v = PDict kvs" and m: "map_of kvs k = Some u1"
      and j: "json_at u1 p = Some u"
      by (cases v) (auto split: option.splits)
    from Cons.prems(1) v obtain at where w: "w = PObj APIObject at"
      and f: "init_fields kvs [(''_data'', PDict kvs)] = Inr at"
      using wrap_dict_envelope by blast
    from m have mem: "(k, u1) \<in> set kvs" by (rule map_of_SomeD)
    from Cons.prems(2) v have d: "distinct (map fst kvs)" and ok1: "dict_ok u1"
      using mem by (auto simp: list_all_iff)
    from init_fields_field[OF f d mem] obtain w1 where nr: "\<not> reserved k"
      and w1: "wrap u1 = Inr w1" and a: "map_of at k = Some w1" by blast
    from Cons.IH[OF w1 ok1 j] obtain wu where "wrap u = Inr wu" "obj_at w1 p = Some wu"
      by blast
    with w Key nr a show ?thesis by (simp add: APIObject_getitem_def)
  next
    case (Index i)
    with Cons.prems(3) obtain xs where v: "v = PList xs" and i: "i < length xs"
      and j: "json_at (xs ! i) p = Some u"
      by (cases v) (auto split: if_splits)
    from Cons.prems(1) v obtain ys where w: "w = PList ys" and l: "wrap_list xs = Inr ys"
      by (auto split: sum.splits)
    from wrap_list_nth[OF l] i have len: "length ys = length xs"
      and wi: "wrap (xs ! i) = Inr (ys ! i)"
      by simp_all
    from Cons.prems(2) v i have "dict_ok (xs ! i)" by (simp add: list_all_length)
    from Cons.IH[OF wi this j] obtain wu where "wrap u = Inr wu" "obj_at (ys ! i) p = Some wu"
      by blast
    with w Index i len show ?thesis by simp
  qed
qed

lemma wrap_scalar: "is_scalar u \<Longrightarrow> wrap u = Inr u"
  by (cases u) simp_all

lemma wrap_envelope: "wrap (PDict kvs) = Inr w \<Longrightarrow> is_envelope w"
  by (auto split: sum.splits)

text \<open>
  So for parsed JSON free of reserved field names the wrapping is structural and
  total: it completes, every value a path reaches is reached in the response object
  by the same path, a JSON object there has become a response object and a scalar is
  itself.
\<close>

lemma wrapping_structural:
  assumes "plain_names v" and "dict_ok v" and "json_at v p = Some u"
  shows "\<exists>w wu. wrap v = Inr w \<and> wrap u = Inr wu \<and> obj_at w p = Some wu
           \<and> (is_scalar u \<longrightarrow> wu = u) \<and> ((\<exists>kvs. u = PDict kvs) \<longrightarrow> is_envelope wu)"
proof -
  from wrap_total[OF assms(1)] obtain w where w: "wrap v = Inr w" by blast
  from wrap_paths[OF w assms(2,3)] obtain wu where wu: "wrap u = Inr wu" "obj_at w p = Some wu"
    by blast
  from wu(1) have "is_scalar u \<longrightarrow> wu = u" by (auto simp: wrap_scalar)
  moreover from wu(1) have "(\<exists>kvs. u = PDict kvs) \<longrightarrow> is_envelope wu"
    by (auto dest: wrap_envelope)
  ultimately show ?thesis using w wu by blast
qed

text \<open>
  Claim C5 fails where a JSON object has a field with a reserved name: the
  construction of the response object raises, here on a trust response with a field
  \<^verbatim>\<open>__class__\<close> holding an object, and on a search response in whose result list an
  object has a field \<^verbatim>\<open>__weakref__\<close>.
\<close>

theorem reserved_field_breaks_wrapping:
  "APIObject_init TrustResponse
     (PDict [(''handle'', PStr ''legal-eagle''), (''__class__'', PDict [(''a'', PInt 1)])]) =
     Inl (Builtin TypeError)
   \<and> APIObject_init SearchResponse
     (PDict [(''results'', PList [PDict [(''__weakref__'', PInt 1)]])]) =
     Inl (Builtin AttributeError)"
  by (simp add: APIObject_init_def object_setattr_def)

text \<open>
  \<^verbatim>\<open>to_dict\<close> gives back the dictionary the response object was built from, provided
  no field of it is called \<^verbatim>\<open>_data\<close> or \<^verbatim>\<open>to_dict\<close>.
\<close>

lemma to_dict_roundtrip:
  assumes "APIObject_init cls (PDict kvs) = Inr obj"
    and "''_data'' \<notin> fst ` set kvs" and "''to_dict'' \<notin> fst ` set kvs"
  shows "APIObject_to_dict conv obj = Inr (PDict kvs)"
proof -
  from assms(1) obtain at where o: "obj = PObj cls at"
    and f: "init_fields kvs [(''_data'', PDict kvs)] = Inr at"
    by (auto simp: APIObject_init_dict split: sum.splits)
  from init_fields_other[OF f assms(2)] have d: "map_of at ''_data'' = Some (PDict kvs)"
    by simp
  from init_fields_other[OF f assms(3)] have t: "map_of at ''to_dict'' = None" by simp
  from o d t show ?thesis
    by (simp add: APIObject_to_dict_def reserved_def py_dict_def)
qed

text \<open>
  Claim C6 fails where the JSON object has a field called \<^verbatim>\<open>_data\<close> or \<^verbatim>\<open>to_dict\<close>.
  The loop of \<^verbatim>\<open>__init__\<close> stores the field over the attribute \<^verbatim>\<open>_data\<close>, so \<^verbatim>\<open>to_dict\<close>
  converts the field's value instead of the data: for the object with the single
  field \<^verbatim>\<open>_data\<close> equal to 1 it raises TypeError. A field \<^verbatim>\<open>to_dict\<close> shadows the method,
  and the call raises TypeError as well.
\<close>

theorem to_dict_fails_on_data_field:
  "APIObject_init SearchResponse (PDict [(''_data'', PInt 1)]) =
     Inr (PObj SearchResponse [(''_data'', PInt 1)])
   \<and> APIObject_to_dict conv (PObj SearchResponse [(''_data'', PInt 1)]) = Inl (Builtin TypeError)
   \<and> APIObject_init SearchResponse (PDict [(''to_dict'', PInt 1)]) =
     Inr (PObj SearchResponse [(''_data'', PDict [(''to_dict'', PInt 1)]), (''to_dict'', PInt 1)])
   \<and> APIObject_to_dict conv
       (PObj SearchResponse [(''_data'', PDict [(''to_dict'', PInt 1)]), (''to_dict'', PInt 1)]) =
     Inl (Builtin TypeError)"
  by (simp add: APIObject_init_def object_setattr_def APIObject_to_dict_def reserved_def
      py_dict_def)


section \<open>The rating of a report\<close>

lemma require_nonblank: "given_nonblank s \<Longrightarrow> require name (of_opt_str s) = Inr ()"
  by (cases s) (simp_all add: given_nonblank_def require_def of_opt_str_def)







lemma demo_client_key: "str_truthy (api_key demo_client)"
  by (simp add: demo_client_def ClawPrint_init_def str_or_def str_truthy_def Let_def)






section \<open>The classes of the errors\<close>

lemma validation_family:
  "isinstance (ValidationError_init m) ClawPrintError"
  "isinstance (ValidationError_init m) ValidationError"
  by (simp_all add: isinstance_def issubclass_def ValidationError_init_def)

lemma auth_family:
  "isinstance (AuthenticationError_init m) ClawPrintError"
  "isinstance (AuthenticationError_init m) AuthenticationError"
  by (simp_all add: isinstance_def issubclass_def AuthenticationError_init_def)

lemma require_family:
  "raises_only ValidationError (require name v)" "raises_only ClawPrintError (require name v)"
  by (simp_all add: raises_only_def require_def validation_family)

lemma require_auth_family:
  "raises_only AuthenticationError (require_auth c m)"
  "raises_only ClawPrintError (require_auth c m)"
  by (simp_all add: raises_only_def require_auth_def auth_family)

lemma transport_error_family: "isinstance (transport_error render c x) ClawPrintError"
  by (simp add: transport_error_def isinstance_def issubclass_def)

lemma handle_response_family:
  "raises_only ClawPrintError (HTTPClient_handle_response render r)"
  by (simp add: raises_only_def HTTPClient_handle_response_def Let_def isinstance_def
      issubclass_def split: pyval.splits)

lemma request_family:
  "raises_only ClawPrintError (fst (HTTPClient_request render net c m p ps b au))"
proof (cases "net (build_request c m p ps b au)")
  case (Got resp)
  then show ?thesis
    using handle_response_family[of render resp] by (simp add: HTTPClient_request_def Let_def)
next
  case (Raised x)
  then show ?thesis
    using transport_error_family[of render c x]
    by (simp add: HTTPClient_request_def Let_def raises_only_def)
qed

lemma adapter_headers_family:
  "raises_only ClawPrintAPIError (ClawPrintClient_headers c au)"
  by (simp add: raises_only_def ClawPrintClient_headers_def isinstance_def issubclass_def)

lemma adapter_response_family:
  "\<not> ok r \<Longrightarrow> raises_only ClawPrintAPIError (ClawPrintClient_handle_response dumps r)"
  by (simp add: raises_only_def ClawPrintClient_handle_response_def isinstance_def
      issubclass_def)

lemma adapter_send_raw:
  "net req = Raised x \<Longrightarrow> cc_send dumps net req = (Inl (SendError x), [req])"
  by (simp add: cc_send_def)

lemma respond_sent:
  "snd (respond cls (HTTPClient_get render net c p ps au)) \<noteq> []"
  "snd (respond cls (HTTPClient_post render net c p b au)) \<noteq> []"
  "snd (respond cls (HTTPClient_patch render net c p b au)) \<noteq> []"
  by (simp_all add: respond_log HTTPClient_get_def HTTPClient_post_def HTTPClient_patch_def
      request_log)

lemma raising_family:
  "isinstance e ClawPrintError \<Longrightarrow> raises_only ClawPrintError (fst (raising e))"
  by (simp add: raises_only_def raising_def)

text \<open>An operation that raises before issuing any request raises a \<^verbatim>\<open>ClawPrintError\<close>.\<close>

lemma trust_preflight:
  "snd (ClawPrint_trust render net c handle) = [] \<Longrightarrow>
   raises_only ClawPrintError (fst (ClawPrint_trust render net c handle))"
  using require_family(2)[of "''handle''" "of_opt_str handle"]
  by (auto simp: ClawPrint_trust_def respond_sent raising_def raises_only_def split: sum.splits)

lemma scan_preflight:
  "snd (ClawPrint_scan render net c content) = [] \<Longrightarrow>
   raises_only ClawPrintError (fst (ClawPrint_scan render net c content))"
  using require_family(2)[of "''content''" "of_opt_str content"]
    require_auth_family(2)[of c "''scan''"]
  by (auto simp: ClawPrint_scan_def respond_sent raising_def raises_only_def split: sum.splits)

lemma update_preflight:
  "snd (ClawPrint_update render net c handle kwargs) = [] \<Longrightarrow>
   raises_only ClawPrintError (fst (ClawPrint_update render net c handle kwargs))"
  using require_family(2)[of "''handle''" "of_opt_str handle"]
    require_auth_family(2)[of c "''update''"]
    validation_family(1)[of "''At least one field is required for update.''"]
  by (auto simp: ClawPrint_update_def respond_sent raising_def raises_only_def
      split: sum.splits if_splits)

lemma number_compared: "is_number v \<Longrightarrow> \<exists>b. between_1_and_5 v = Inr b"
  by (cases v) (auto simp: between_1_and_5_def)

lemma report_preflight:
  assumes "snd (ClawPrint_report render net c a) = []"
    and "rating a = PNone \<or> is_number (rating a)"
  shows "raises_only ClawPrintError (fst (ClawPrint_report render net c a))"
proof -
  have "\<exists>b. (if rating a \<noteq> PNone then between_1_and_5 (rating a) else Inr True) = Inr b"
  proof (cases "rating a = PNone")
    case True
    then show ?thesis by auto
  next
    case False
    with assms(2) have "is_number (rating a)" by simp
    from number_compared[OF this] False show ?thesis by auto
  qed
  then obtain b where
    b: "(if rating a \<noteq> PNone then between_1_and_5 (rating a) else Inr True) = Inr b"
    by blast
  show ?thesis
    using assms(1) b
      require_family(2)[of "''provider_handle''" "of_opt_str (provider_handle a)"]
      require_family(2)[of "''requester_handle''" "of_opt_str (requester_handle a)"]
      require_family(2)[of "''protocol''" "of_opt_str (protocol a)"]
      require_family(2)[of "''outcome''" "of_opt_str (outcome a)"]
      require_auth_family(2)[of c "''report''"]
      validation_family(1)[of "''rating must be between 1 and 5.''"]
    by (auto simp: ClawPrint_report_def respond_sent raising_def raises_only_def
        split: sum.splits if_splits)
qed

text \<open>A rating that cannot be ordered with an integer makes the comparison itself
  raise, before any request and outside the family: Python's TypeError.\<close>

lemma report_rating_not_comparable:
  assumes "str_truthy (api_key c)"
    and "given_nonblank (provider_handle a)" and "given_nonblank (requester_handle a)"
    and "given_nonblank (protocol a)" and "given_nonblank (outcome a)"
    and "rating a = PStr s"
  shows "ClawPrint_report render net c a = (Inl (Builtin TypeError), [])"
  using assms
  by (simp add: ClawPrint_report_def require_auth_def require_nonblank between_1_and_5_def
      raising_def)

lemma register_preflight:
  "snd (ClawPrint_register render net c name handle description services protocols extra) = []
   \<Longrightarrow> raises_only ClawPrintError
        (fst (ClawPrint_register render net c name handle description services protocols extra))"
  using require_family(2)[of "''name''" "of_opt_str name"]
    require_family(2)[of "''handle''" "of_opt_str handle"]
    require_family(2)[of "''description''" "of_opt_str description"]
  by (auto simp: ClawPrint_register_def respond_sent raising_def raises_only_def Let_def
      split: sum.splits)

text \<open>
  Claim C9, as amended. In the SDK, the validation error, the authentication-required
  error, the three transport errors and the error of a failed response are all
  instances of \<^verbatim>\<open>ClawPrintError\<close>, the first two also of their own subclasses; so is
  every error that \<^verbatim>\<open>HTTPClient.request\<close> raises, and every error that \<^verbatim>\<open>update\<close>,
  \<^verbatim>\<open>report\<close> (given a rating that is a number or None) or \<^verbatim>\<open>scan\<close> raises before a
  request is issued. The adapter has a family
  of its own: a missing key and a failed response raise \<^verbatim>\<open>ClawPrintAPIError\<close>, which is
  no subclass of \<^verbatim>\<open>ClawPrintError\<close>, nor the other way round.
\<close>

theorem error_families:
  "raises_only ValidationError (require name v)
   \<and> raises_only ClawPrintError (require name v)
   \<and> isinstance (ValidationError_init msg) ClawPrintError
   \<and> raises_only AuthenticationError (require_auth c m)
   \<and> raises_only ClawPrintError (require_auth c m)
   \<and> isinstance (transport_error render hc x) ClawPrintError
   \<and> raises_only ClawPrintError (HTTPClient_handle_response render r)
   \<and> raises_only ClawPrintError (fst (HTTPClient_request render net hc verb route ps b au))
   \<and> (snd (ClawPrint_update render net c handle kwargs) = [] \<longrightarrow>
        raises_only ClawPrintError (fst (ClawPrint_update render net c handle kwargs)))
   \<and> (snd (ClawPrint_report render net c a) = []
        \<and> (rating a = PNone \<or> is_number (rating a)) \<longrightarrow>
        raises_only ClawPrintError (fst (ClawPrint_report render net c a)))
   \<and> (snd (ClawPrint_scan render net c content) = [] \<longrightarrow>
        raises_only ClawPrintError (fst (ClawPrint_scan render net c content)))
   \<and> raises_only ClawPrintAPIError (ClawPrintClient_headers cc auth_required)
   \<and> (\<not> ok r \<longrightarrow>
        raises_only ClawPrintAPIError (ClawPrintClient_handle_response dumps r))
   \<and> \<not> issubclass ClawPrintAPIError ClawPrintError
   \<and> \<not> issubclass ClawPrintError ClawPrintAPIError"
  using require_family[of name v] validation_family(1)[of msg] require_auth_family[of c m]
    transport_error_family[of render hc x] handle_response_family[of render r]
    request_family[of render net hc verb route ps b au]
    update_preflight[of render net c handle kwargs] report_preflight[of render net c a]
    scan_preflight[of render net c content]
    adapter_headers_family[of cc auth_required]
    adapter_response_family[of r dumps]
  by (simp add: issubclass_def)

theorem error_families_witness:
  "require ''handle'' PNone =
     Inl (SDKError ValidationError (CHR 0x27 # ''handle'' @ CHR 0x27 # '' is required and cannot be empty.'')
            None (PStr ''validation_error'') PNone)
   \<and> isinstance (SDKError ValidationError
         (CHR 0x27 # ''handle'' @ CHR 0x27 # '' is required and cannot be empty.'')
         None (PStr ''validation_error'') PNone) ClawPrintError
   \<and> fst (HTTPClient_request demo_render (\<lambda>req. Raised refused) (http demo_client) ''GET''
        ''/v1/domains'' None None False) =
     Inl (SDKError ClawPrintError ''Connection error: refused'' None (PStr ''connection_error'') PNone)
   \<and> ClawPrint_scan demo_render (\<lambda>req. Raised refused) demo_client None =
     (Inl (SDKError ValidationError
             (CHR 0x27 # ''content'' @ CHR 0x27 # '' is required and cannot be empty.'')
             None (PStr ''validation_error'') PNone), [])
   \<and> isinstance (SDKError ValidationError
         (CHR 0x27 # ''content'' @ CHR 0x27 # '' is required and cannot be empty.'')
         None (PStr ''validation_error'') PNone) ClawPrintError
   \<and> \<not> ok not_found
   \<and> ClawPrintClient_handle_response demo_render not_found =
       Inl (AdapterError 404 (PStr ''Not found''))
   \<and> isinstance (AdapterError 404 (PStr ''Not found'')) ClawPrintAPIError"
  using error_families [where name = "''handle''" and v = PNone and render = demo_render
      and hc = "http demo_client" and x = refused and r = not_found
      and net = "\<lambda>req. Raised refused" and verb = "''GET''" and route = "''/v1/domains''"
      and ps = None and b = None and au = False and dumps = demo_render
      and c = demo_client and content = None]
    demo_client_key
  by (simp add: require_def ValidationError_init_def HTTPClient_request_def transport_error_def
      refused_def ClawPrintClient_handle_response_def not_found_def ok_def dict_get_def py_or_def
      raises_only_def isinstance_def issubclass_def ClawPrint_scan_def require_auth_def
      raising_def of_opt_str_def Let_def)

text \<open>
  Claim C9 as stated fails across the two packages: on the same 404 response the SDK
  raises a \<^verbatim>\<open>ClawPrintError\<close> and the adapter a \<^verbatim>\<open>ClawPrintAPIError\<close>, neither an
  instance of the other's class.
\<close>

theorem adapter_errors_outside_sdk_family:
  "HTTPClient_handle_response demo_render not_found =
     Inl (SDKError ClawPrintError ''API request failed'' (Some 404) PNone
            (PDict [(''detail'', PStr ''Not found'')]))
   \<and> \<not> isinstance (SDKError ClawPrintError ''API request failed'' (Some 404) PNone
            (PDict [(''detail'', PStr ''Not found'')])) ClawPrintAPIError
   \<and> ClawPrintClient_handle_response demo_render not_found =
     Inl (AdapterError 404 (PStr ''Not found''))
   \<and> \<not> isinstance (AdapterError 404 (PStr ''Not found'')) ClawPrintError"
  by (simp add: HTTPClient_handle_response_def ClawPrintClient_handle_response_def not_found_def
      ok_def parsed_body_def dict_get_def py_or_def py_str_def isinstance_def issubclass_def
      Let_def)

text \<open>The adapter's client does not catch what the session raises: when the connection
  fails, \<^verbatim>\<open>get_trust\<close> raises the exception of \<^verbatim>\<open>requests\<close> itself, an instance of
  neither family.\<close>

lemma adapter_transport_error_raw:
  "fst (get_trust dumps (\<lambda>req. Raised x) demo_adapter handle) = Inl (SendError x)
   \<and> \<not> isinstance (SendError x) ClawPrintAPIError
   \<and> \<not> isinstance (SendError x) ClawPrintError"
  by (simp add: get_trust_def cc_call_def cc_send_def ClawPrintClient_headers_def
      isinstance_def issubclass_def)

end
